theory Spec2Isabelle
  imports Complex_Main
begin

section \<open>Values of the runtime\<close>

text \<open>
  The two source files, \<^verbatim>\<open>src/js/api.js\<close> and \<^verbatim>\<open>src/js/session.js\<close>, run on
  Duktape 1.x. A plain buffer is a sequence of bytes; \<^verbatim>\<open>Duktape.Buffer(s)\<close> of a
  string is the sequence of the string's bytes, and \<^verbatim>\<open>==\<close> and \<^verbatim>\<open>!=\<close> between two plain
  buffers compare their contents. A buffer is truthy when it is not empty, a string
  likewise; \<^verbatim>\<open>null\<close> and \<^verbatim>\<open>undefined\<close> are falsy.
\<close>

type_synonym bytes = "char list"

definition Duktape_Buffer :: "string \<Rightarrow> bytes" where
  "Duktape_Buffer s = s"

text \<open>Truthiness of a value that is a buffer (or a string), \<^verbatim>\<open>null\<close> or \<^verbatim>\<open>undefined\<close>.\<close>

fun truthy :: "char list option \<Rightarrow> bool" where
  "truthy None = False"
| "truthy (Some b) = (b \<noteq> [])"

text \<open>\<^verbatim>\<open>name || ''\<close> for a name that is a string, \<^verbatim>\<open>null\<close> or \<^verbatim>\<open>undefined\<close>.\<close>

fun or_empty :: "string option \<Rightarrow> string" where
  "or_empty None = []"
| "or_empty (Some s) = s"

text \<open>
  A JSON value. Numbers are rationals: the comparisons the code makes on them
  (\<^verbatim>\<open>< 0\<close>, \<^verbatim>\<open>==\<close> with an error code) are exact on them.
\<close>

datatype json =
    JNull
  | JBool bool
  | JNum rat
  | JStr string
  | JArr "json list"
  | JObj "(string \<times> json) list"

text \<open>What an exception of the runtime is, when the code throws one.\<close>

datatype js_error =
    TypeError string
  | ReferenceError string
  | RangeError
  | SyntaxError

section \<open>The data of a session and of the filesystem\<close>

text \<open>
  The objects of the source have no declared shape; the records below list the members
  the two files read and write. A member that is \<^verbatim>\<open>undefined\<close> is \<open>None\<close>. Handles, keys in
  base64 and names are strings, sizes and times are integers.

  \<open>node_entry\<close> is an element of the array \<^verbatim>\<open>f\<close> of the server's answer to the request
  \<^verbatim>\<open>{a:'f'}\<close>, \<open>node\<close> the object \<^verbatim>\<open>importNode\<close> builds from it.
\<close>

record node_entry =
  f_t :: int
  f_h :: string
  f_p :: "string option"
  f_su :: "string option"
  f_u :: "string option"
  f_s :: "int option"
  f_ts :: "int option"
  f_k :: "string option"
  f_a :: "string option"
  f_sk :: "string option"

record node =
  n_type :: int
  n_handle :: string
  n_parent_handle :: "string option"
  n_su_handle :: "string option"
  n_user :: "string option"
  n_size :: "int option"
  n_mtime :: "int option"
  n_key_full :: "bytes option"
  n_key :: "bytes option"
  n_attrs :: "json option"
  n_name :: "string option"

text \<open>
  What reading a member of the array \<^verbatim>\<open>share_keys\<close> gives: \<^verbatim>\<open>undefined\<close>, a buffer that
  was stored there, a number (the member \<^verbatim>\<open>length\<close>), or another value that is neither,
  a function or an object that the array inherits from its prototypes.
\<close>

datatype key_value =
    NoKey
  | KeyBuf bytes
  | KeyNumber nat
  | NotABuffer

text \<open>
  The state of a \<^verbatim>\<open>Filesystem\<close> object that \<^verbatim>\<open>getData\<close> saves: \<^verbatim>\<open>nodes\<close> and
  \<^verbatim>\<open>share_keys\<close>, both keyed by handle. (\<^verbatim>\<open>pathMap\<close> and \<^verbatim>\<open>children\<close> are indexes computed
  from \<^verbatim>\<open>nodes\<close> by \<^verbatim>\<open>mapPaths\<close> and \<^verbatim>\<open>mapChildren\<close>; they are not part of this state.)
  \<^verbatim>\<open>nodes\<close> is an object that the code writes by handle: the field gives its own
  members. \<^verbatim>\<open>share_keys\<close> is an array (\<^verbatim>\<open>initObject\<close> sets it to \<^verbatim>\<open>[]\<close>) that the code reads
  and writes by handle: the field gives, for every member name, what reading that member
  of the array returns.
\<close>

record filesystem =
  nodes :: "string \<Rightarrow> node option"
  share_keys :: "string \<Rightarrow> key_value"

text \<open>\<^verbatim>\<open>Session.data\<close>: what a session keeps and saves.\<close>

record session_data =
  d_saved :: "int option"
  d_sid :: "string option"
  d_sidParamName :: "string option"
  d_mk :: "bytes option"
  d_uh :: "string option"
  d_pubk :: "string option"
  d_privk :: "string option"
  d_user :: "json option"
  d_isExportedFolder :: bool

section \<open>The native helpers\<close>

text \<open>
  The object \<^verbatim>\<open>C\<close> (cryptography, base64, files, the platform) is native code that is
  not among the two source files, and \<^verbatim>\<open>JSON\<close> is the runtime's. The functions of the
  source take them as a parameter, a record of functions; what a theorem needs of them
  is stated as a contract where it is needed.

  \<^item> \<open>aes_dec_cbc\<close> and \<open>rsa_decrypt\<close> return \<^verbatim>\<open>null\<close> (here \<open>None\<close>) when they fail;
  \<^item> \<open>buftojsonstring\<close> returns a string, or a falsy value (here \<open>None\<close>) when it
    finds none in the buffer;
  \<^item> \<open>JSON_parse\<close> throws a SyntaxError (here \<open>None\<close>) on a text that is not JSON;
  \<^item> \<open>enc_jx_session\<close>, \<open>dec_jx_session\<close>, \<open>enc_jx_fs\<close> and \<open>dec_jx_fs\<close> are
    \<^verbatim>\<open>Duktape.enc('jx', v)\<close> and \<^verbatim>\<open>Duktape.dec('jx', text)\<close> on the data of a session and on
    the saved state of a filesystem; decoding throws (here \<open>None\<close>) on other text;
  \<^item> \<open>buffer_to_length\<close> is the conversion the runtime applies to a buffer that is
    assigned to the \<^verbatim>\<open>length\<close> of an array: the number the buffer converts to when that
    is an integer from 0 to \<open>2 ^ 32 - 1\<close>, and \<open>None\<close> when it is not and the assignment
    throws a RangeError.
\<close>

record prims =
  os :: string
  get_tmp_dir :: string
  sha256_digest :: "bytes \<Rightarrow> bytes"
  aes_key_from_password :: "string \<Rightarrow> bytes"
  aes_enc :: "bytes \<Rightarrow> bytes \<Rightarrow> bytes"
  aes_dec :: "bytes \<Rightarrow> bytes \<Rightarrow> bytes"
  aes_enc_cbc :: "bytes \<Rightarrow> bytes \<Rightarrow> bytes"
  aes_dec_cbc :: "bytes \<Rightarrow> bytes \<Rightarrow> bytes option"
  aes_ctr :: "bytes \<Rightarrow> bytes \<Rightarrow> nat \<Rightarrow> bytes \<Rightarrow> bytes"
  rsa_decrypt :: "bytes \<Rightarrow> bytes \<Rightarrow> bytes \<Rightarrow> bytes option"
  rsa_decrypt_sid :: "string \<Rightarrow> bytes \<Rightarrow> string \<Rightarrow> string option"
  make_username_hash :: "bytes \<Rightarrow> string \<Rightarrow> string"
  file_node_key_unpack :: "bytes \<Rightarrow> bytes"
  ub64enc :: "bytes \<Rightarrow> string"
  ub64dec :: "string \<Rightarrow> bytes"
  alignbuf :: "bytes \<Rightarrow> nat \<Rightarrow> bool \<Rightarrow> bytes"
  buftojsonstring :: "bytes \<Rightarrow> string option"
  JSON_stringify :: "json \<Rightarrow> string"
  JSON_parse :: "string \<Rightarrow> json option"
  enc_jx_session :: "session_data \<Rightarrow> string"
  dec_jx_session :: "string \<Rightarrow> session_data option"
  enc_jx_fs :: "filesystem \<Rightarrow> string"
  dec_jx_fs :: "string \<Rightarrow> filesystem option"
  buffer_to_length :: "bytes \<Rightarrow> nat option"

text \<open>
  Modelled from the spec: the buffer helpers \<^verbatim>\<open>C.slicebuf\<close> and \<^verbatim>\<open>C.joinbuf\<close> are native
  code outside the two source files; the spec lists them as buffer helpers. Here
  \<^verbatim>\<open>slicebuf(b, off, len)\<close> is the \<open>len\<close> bytes of \<open>b\<close> from offset \<open>off\<close>,
  \<^verbatim>\<open>slicebuf(b, off)\<close> is \<open>b\<close> from offset \<open>off\<close> to its end (both clipped to the buffer),
  and \<^verbatim>\<open>joinbuf\<close> is concatenation.
\<close>

definition slicebuf :: "bytes \<Rightarrow> nat \<Rightarrow> nat \<Rightarrow> bytes" where
  "slicebuf b off len = take len (drop off b)"

definition slicebuf_from :: "bytes \<Rightarrow> nat \<Rightarrow> bytes" where
  "slicebuf_from b off = drop off b"

definition joinbuf :: "bytes \<Rightarrow> bytes \<Rightarrow> bytes" where
  "joinbuf a b = a @ b"

text \<open>
  Modelled from the spec: \<^verbatim>\<open>C.file_read(path)\<close> gives the bytes of a file or \<^verbatim>\<open>null\<close>,
  \<^verbatim>\<open>C.file_write(path, bytes)\<close> gives a boolean. The disk is a map from paths to
  contents; a write stores the content and reports success.
\<close>

type_synonym disk = "string \<Rightarrow> bytes option"

definition file_read :: "disk \<Rightarrow> string \<Rightarrow> bytes option" where
  "file_read d path = d path"

definition file_write :: "disk \<Rightarrow> string \<Rightarrow> bytes \<Rightarrow> bool \<times> disk" where
  "file_write d path content = (True, d(path \<mapsto> content))"

section \<open>Session: credentials and the session file\<close>

record credentials =
  username :: string
  password :: string
  pk :: bytes

text \<open>\<^verbatim>\<open>Session.setCredentials\<close> (session.js, lines 60-64).\<close>

definition setCredentials :: "prims \<Rightarrow> string \<Rightarrow> string \<Rightarrow> credentials" where
  "setCredentials P u p = \<lparr>username = u, password = p, pk = aes_key_from_password P p\<rparr>"

text \<open>
  The digest of \<^verbatim>\<open>username + password + (name || '')\<close>, which both the path and the
  nonce of a session file are built from.
\<close>

definition session_digest :: "prims \<Rightarrow> credentials \<Rightarrow> string option \<Rightarrow> bytes" where
  "session_digest P s name =
     sha256_digest P (Duktape_Buffer (username s @ password s @ or_empty name))"

text \<open>\<^verbatim>\<open>Session.getSessionFilePath\<close> (session.js, lines 66-71).\<close>

definition getSessionFilePath :: "prims \<Rightarrow> credentials \<Rightarrow> string option \<Rightarrow> string" where
  "getSessionFilePath P s name =
     (let digest = session_digest P s name;
          ed = ub64enc P (aes_enc_cbc P (pk s) digest)
      in get_tmp_dir P @ (if os P = ''windows'' then [CHR 0x5C] else ''/'') @ take 30 ed)"

text \<open>
  \<^verbatim>\<open>Session.loadSessionFile\<close> (session.js, lines 73-93); \<open>None\<close> is the \<^verbatim>\<open>null\<close> it
  returns.
\<close>

definition loadSessionFile :: "prims \<Rightarrow> credentials \<Rightarrow> string option \<Rightarrow> disk \<Rightarrow> bytes option" where
  "loadSessionFile P s name d =
     (let path = getSessionFilePath P s name;
          data = file_read d path
      in if \<not> truthy data then None
         else
           let nonce = slicebuf (session_digest P s name) 0 8;
               plain = aes_ctr P (pk s) nonce 0 (the data);
               plain_digest = slicebuf plain 0 32;
               plain_payload = slicebuf_from plain 32
           in if sha256_digest P plain_payload \<noteq> plain_digest then None
              else Some plain_payload)"

text \<open>
  \<^verbatim>\<open>Session.saveSessionFile\<close> (session.js, lines 95-105): the result of the write and
  the disk after it.
\<close>

definition saveSessionFile ::
  "prims \<Rightarrow> credentials \<Rightarrow> string option \<Rightarrow> bytes \<Rightarrow> disk \<Rightarrow> bool \<times> disk" where
  "saveSessionFile P s name plain_payload d =
     (let path = getSessionFilePath P s name;
          plain_digest = sha256_digest P plain_payload;
          plain = joinbuf plain_digest plain_payload;
          nonce = slicebuf (session_digest P s name) 0 8;
          data = aes_ctr P (pk s) nonce 0 plain
      in file_write d path data)"

text \<open>
  What the session file needs of the native helpers: the digest is 32 bytes long, and
  \<^verbatim>\<open>aes_ctr\<close> is a stream cipher: it keeps the length, applying it twice with the same
  key, nonce and counter gives the input back, and two inputs of one length differ at a
  position exactly when their outputs do.
\<close>

definition digest_contract :: "prims \<Rightarrow> bool" where
  "digest_contract P = (\<forall>b. length (sha256_digest P b) = 32)"

definition ctr_contract :: "prims \<Rightarrow> bool" where
  "ctr_contract P =
     ((\<forall>k n c x. length (aes_ctr P k n c x) = length x) \<and>
      (\<forall>k n c x. aes_ctr P k n c (aes_ctr P k n c x) = x) \<and>
      (\<forall>k n c x y i. length x = length y \<longrightarrow> i < length x \<longrightarrow>
          (aes_ctr P k n c x ! i = aes_ctr P k n c y ! i) = (x ! i = y ! i)))"


text \<open>The stored bytes of a session file, as \<^verbatim>\<open>saveSessionFile\<close> computes them.\<close>

definition stored_blob :: "prims \<Rightarrow> credentials \<Rightarrow> string option \<Rightarrow> bytes \<Rightarrow> bytes" where
  "stored_blob P s name p =
     aes_ctr P (pk s) (slicebuf (session_digest P s name) 0 8) 0
       (joinbuf (sha256_digest P p) p)"

text \<open>The bytes of a stored file after decryption, as \<^verbatim>\<open>loadSessionFile\<close> computes them.\<close>

definition decrypted :: "prims \<Rightarrow> credentials \<Rightarrow> string option \<Rightarrow> bytes \<Rightarrow> bytes" where
  "decrypted P s name content =
     aes_ctr P (pk s) (slicebuf (session_digest P s name) 0 8) 0 content"

section \<open>Encrypted node attributes\<close>

text \<open>\<^verbatim>\<open>MegaAPI.makeNodeAttrs\<close> (api.js, lines 797-799).\<close>

definition makeNodeAttrs :: "prims \<Rightarrow> bytes \<Rightarrow> json \<Rightarrow> string" where
  "makeNodeAttrs P nk attrs =
     ub64enc P (aes_enc_cbc P nk
       (alignbuf P (Duktape_Buffer (''MEGA'' @ JSON_stringify P attrs)) 16 True))"



section \<open>The API engine (api.js)\<close>

subsection \<open>Error names and messages\<close>

definition errorMessages :: "(string \<times> string) list" where
  "errorMessages =
     [(''EINTERNAL'', ''Internal error''),
      (''EARGS'', ''Invalid argument''),
      (''EAGAIN'', ''Request failed, retrying''),
      (''ERATELIMIT'', ''Rate limit exceeded''),
      (''EFAILED'', ''Transfer failed''),
      (''ETOOMANY'', ''Too many concurrent connections or transfers''),
      (''ERANGE'', ''Out of range''),
      (''EEXPIRED'', ''Expired''),
      (''ENOENT'', ''Not found''),
      (''ECIRCULAR'', ''Circular linkage detected''),
      (''EACCESS'', ''Access denied''),
      (''EEXIST'', ''Already exists''),
      (''EINCOMPLETE'', ''Incomplete''),
      (''EKEY'', ''Invalid key/integrity check failed''),
      (''ESID'', ''Bad session ID''),
      (''EBLOCKED'', ''Blocked''),
      (''EOVERQUOTA'', ''Over quota''),
      (''ETEMPUNAVAIL'', ''Temporarily not available''),
      (''ETOOMANYCONNECTIONS'', ''Connection overflow''),
      (''EWRITE'', ''Write error''),
      (''EREAD'', ''Read error''),
      (''EAPPKEY'', ''Invalid application key'')]"

definition errorCodes :: "(string \<times> int) list" where
  "errorCodes =
     [(''EINTERNAL'', -1),
      (''EARGS'', -2),
      (''EAGAIN'', -3),
      (''ERATELIMIT'', -4),
      (''EFAILED'', -5),
      (''ETOOMANY'', -6),
      (''ERANGE'', -7),
      (''EEXPIRED'', -8),
      (''ENOENT'', -9),
      (''ECIRCULAR'', -10),
      (''EACCESS'', -11),
      (''EEXIST'', -12),
      (''EINCOMPLETE'', -13),
      (''EKEY'', -14),
      (''ESID'', -15),
      (''EBLOCKED'', -16),
      (''EOVERQUOTA'', -17),
      (''ETEMPUNAVAIL'', -18),
      (''ETOOMANYCONNECTIONS'', -19),
      (''EWRITE'', -20),
      (''EREAD'', -21),
      (''EAPPKEY'', -22)]"

text \<open>
  \<^verbatim>\<open>getErrorName\<close> (api.js, lines 144-153): the first key of the table whose code
  equals the number.
\<close>

fun find_code :: "(string \<times> int) list \<Rightarrow> rat \<Rightarrow> string" where
  "find_code [] num = ''EUNKNOWN''"
| "find_code ((key, c) # rest) num = (if of_int c = num then key else find_code rest num)"

definition getErrorName :: "rat \<Rightarrow> string" where
  "getErrorName num = find_code errorCodes num"

text \<open>\<^verbatim>\<open>getErrorMessage\<close> (api.js, lines 155-157).\<close>

definition getErrorMessage :: "string \<Rightarrow> string" where
  "getErrorMessage name =
     (if truthy (map_of errorMessages name) then the (map_of errorMessages name)
      else ''Unknown error'')"

subsection \<open>State, requests and deferred results\<close>

record api_state =
  sid :: "string option"
  sidParamName :: "string option"
  callId :: nat

text \<open>A new \<^verbatim>\<open>MegaAPI\<close> object (api.js, lines 162-164).\<close>

definition new_api :: api_state where
  "new_api = \<lparr>sid = None, sidParamName = None, callId = 0\<rparr>"

text \<open>\<^verbatim>\<open>setSessionId\<close> (api.js, lines 166-169); a missing argument is \<^verbatim>\<open>undefined\<close>.\<close>

definition setSessionId :: "api_state \<Rightarrow> string option \<Rightarrow> string option \<Rightarrow> api_state" where
  "setSessionId me s paramName = me\<lparr>sid := s, sidParamName := paramName\<rparr>"

text \<open>
  One HTTP POST. The URL of the source is the join of \<^verbatim>\<open>'https://'\<close>, the host,
  \<^verbatim>\<open>'/cs?id='\<close>, the call id and, when there is a session id, \<^verbatim>\<open>'&'\<close>, the parameter name,
  \<^verbatim>\<open>'='\<close> and the session id; the record keeps these parts. The body is the JSON text of
  the requests.
\<close>

record http_request =
  rq_host :: string
  rq_id :: nat
  rq_sid :: "(string \<times> string) option"
  rq_body :: "json list"

text \<open>
  What the transport answers to one POST: \<^verbatim>\<open>onload(data)\<close>, with the value \<^verbatim>\<open>JSON.parse\<close>
  reads from the data (\<open>None\<close> when the data is not JSON and \<^verbatim>\<open>JSON.parse\<close> throws), or
  \<^verbatim>\<open>onerror(code, msg)\<close>.
\<close>

datatype http_event = OnLoad "json option" | OnError string string

text \<open>
  The state of a deferred: not settled, resolved with a value, rejected with a code and
  an optional message, or left by an exception of the callback that was to settle it.
\<close>

datatype 'a outcome =
    Pending
  | Resolved 'a
  | Rejected string "string option"
  | Threw js_error

subsection \<open>callMulti\<close>

text \<open>The \<^verbatim>\<open>onload\<close> callback of \<^verbatim>\<open>callMulti\<close> (api.js, lines 197-211).\<close>

definition onload :: "json \<Rightarrow> json list outcome" where
  "onload response =
     (case response of
        JNum x \<Rightarrow> (let code = getErrorName x in Rejected code (Some (getErrorMessage code)))
      | JArr rs \<Rightarrow> Resolved rs
      | _ \<Rightarrow> Rejected ''empty'' None)"

text \<open>
  \<^verbatim>\<open>doRequest\<close> (api.js, lines 187-229), run against the answers of the transport to
  the successive POSTs: the requests sent, the delays of the timers set, and the state
  of the deferred. An empty list of answers is a POST that has not been answered.
\<close>

fun doRequest ::
  "http_request \<Rightarrow> nat \<Rightarrow> http_event list \<Rightarrow> http_request list \<times> nat list \<times> json list outcome" where
  "doRequest rq nextTimeout [] = ([rq], [], Pending)"
| "doRequest rq nextTimeout (OnLoad None # es) = ([rq], [], Threw SyntaxError)"
| "doRequest rq nextTimeout (OnLoad (Some response) # es) = ([rq], [], onload response)"
| "doRequest rq nextTimeout (OnError code msg # es) =
     (if code = ''busy'' \<or> code = ''no_response'' then
        (if nextTimeout < 120 * 1000 * 1000 then
           (case doRequest rq (nextTimeout * 2) es of
              (sent, timers, r) \<Rightarrow> (rq # sent, nextTimeout # timers, r))
         else ([rq], [], Pending))
      else ([rq], [], Rejected code (Some msg)))"

definition host :: string where
  "host = ''g.api.mega.co.nz''"

text \<open>
  \<^verbatim>\<open>me.callId++\<close> (api.js, line 178). The call id is a number of the runtime, a double:
  below \<open>2 ^ 53\<close> the sum with one is exact. From \<open>2 ^ 53\<close> to \<open>2 ^ 54\<close> the doubles are the
  even numbers, the sum with one lies halfway between two of them and is rounded to the
  one whose significand is even; from \<open>2 ^ 54\<close> on the doubles are four or more apart and
  the sum is rounded back. So at \<open>2 ^ 53\<close> the counter stays where it is. (It starts at 0
  and nothing else writes it, so it never passes \<open>2 ^ 53\<close>.)
\<close>

definition js_incr :: "nat \<Rightarrow> nat" where
  "js_incr c =
     (if c < 2 ^ 53 then c + 1
      else if c < 2 ^ 54 then (if even (c div 2) then c else c + 2)
      else c)"

text \<open>\<^verbatim>\<open>callMulti\<close> (api.js, lines 174-233).\<close>

definition callMulti ::
  "api_state \<Rightarrow> json list \<Rightarrow> http_event list \<Rightarrow>
     api_state \<times> http_request list \<times> nat list \<times> json list outcome" where
  "callMulti me requests events =
     (let me' = me\<lparr>callId := js_incr (callId me)\<rparr>;
          url = \<lparr>rq_host = host, rq_id = callId me',
                 rq_sid = (if truthy (sid me')
                           then Some (if truthy (sidParamName me') then the (sidParamName me')
                                      else ''sid'', the (sid me'))
                           else None),
                 rq_body = requests\<rparr>;
          nextTimeout = 10000
      in (me', doRequest url nextTimeout events))"

subsection \<open>call\<close>

text \<open>
  The continuation of \<^verbatim>\<open>call\<close> (api.js, lines 239-247); \<open>None\<close> is the \<^verbatim>\<open>undefined\<close>
  that \<^verbatim>\<open>responses[0]\<close> is for an empty array.
\<close>

definition call_done :: "json list \<Rightarrow> json option outcome" where
  "call_done responses =
     (case responses of
        [] \<Rightarrow> Resolved None
      | r0 # _ \<Rightarrow>
          (case r0 of
             JNum x \<Rightarrow>
               (if x < 0 then (let code = getErrorName x in Rejected code (Some (getErrorMessage code)))
                else Resolved (Some r0))
           | _ \<Rightarrow> Resolved (Some r0)))"

text \<open>
  \<^verbatim>\<open>d.done(f)\<close> of the deferred library: \<open>f\<close> runs on the value when \<open>d\<close> is resolved,
  and its result is the result; anything else passes through.
\<close>

fun done_with :: "'a outcome \<Rightarrow> ('a \<Rightarrow> 'b outcome) \<Rightarrow> 'b outcome" where
  "done_with Pending f = Pending"
| "done_with (Resolved v) f = f v"
| "done_with (Rejected c m) f = Rejected c m"
| "done_with (Threw e) f = Threw e"

text \<open>\<^verbatim>\<open>call\<close> (api.js, lines 238-248).\<close>

definition call ::
  "api_state \<Rightarrow> json \<Rightarrow> http_event list \<Rightarrow>
     api_state \<times> http_request list \<times> nat list \<times> json option outcome" where
  "call me request events =
     (case callMulti me [request] events of
        (me', sent, timers, r) \<Rightarrow> (me', sent, timers, done_with r call_done))"

subsection \<open>CallBatch.send\<close>

text \<open>
  What \<^verbatim>\<open>send\<close> does with one response of the array (api.js, lines 840-848).
\<close>

definition deliver :: "json \<Rightarrow> json outcome" where
  "deliver response =
     (case response of
        JNum x \<Rightarrow>
          (if x < 0 then (let code = getErrorName x in Rejected code (Some (getErrorMessage code)))
           else Resolved response)
      | _ \<Rightarrow> Resolved response)"

text \<open>
  The \<^verbatim>\<open>_.each\<close> over the responses (api.js, lines 839-849): \<open>calls\<close> are the deferreds
  of the batch, in the order of their requests. A response past the last call finds
  \<^verbatim>\<open>calls[idx]\<close> undefined, and the loop ends in a TypeError.
\<close>

fun each_response ::
  "json list \<Rightarrow> nat \<Rightarrow> json outcome list \<Rightarrow> json outcome list \<times> js_error option" where
  "each_response [] idx calls = (calls, None)"
| "each_response (response # rest) idx calls =
     (if idx < length calls then each_response rest (Suc idx) (calls[idx := deliver response])
      else (calls, Some (TypeError ''defer'')))"

text \<open>
  \<^verbatim>\<open>CallBatch.send\<close> (api.js, lines 834-856) for a batch whose calls carry the given
  requests: the API state, the requests sent, the timers, the deferreds of the calls and
  an exception of the continuation, if any.
\<close>

definition send ::
  "api_state \<Rightarrow> json list \<Rightarrow> http_event list \<Rightarrow>
     api_state \<times> http_request list \<times> nat list \<times> json outcome list \<times> js_error option" where
  "send me requests events =
     (let calls = replicate (length requests) Pending
      in if length calls > 0 then
           (case callMulti me requests events of
              (me', sent, timers, r) \<Rightarrow>
                (case r of
                   Resolved responses \<Rightarrow>
                     (case each_response responses 0 calls of
                        (calls', err) \<Rightarrow> (me', sent, timers, calls', err))
                 | Rejected code msg \<Rightarrow>
                     (me', sent, timers, map (\<lambda>_. Rejected code msg) calls, None)
                 | Pending \<Rightarrow> (me', sent, timers, calls, None)
                 | Threw e \<Rightarrow> (me', sent, timers, calls, Some e)))
         else (me, [], [], calls, None))"

text \<open>
  A session's calls: the batches of a session, one after the other on one API object,
  each with the answers of the transport to its POSTs; the requests each batch sent.
\<close>

fun session_calls ::
  "api_state \<Rightarrow> (json list \<times> http_event list) list \<Rightarrow> http_request list list" where
  "session_calls me [] = []"
| "session_calls me ((requests, events) # rest) =
     (case callMulti me requests events of
        (me', sent, timers, r) \<Rightarrow> sent # session_calls me' rest)"

section \<open>Logging in (api.js)\<close>

text \<open>\<^verbatim>\<open>tsOk\<close> (api.js, lines 293-305).\<close>

definition tsOk :: "prims \<Rightarrow> string \<Rightarrow> bytes \<Rightarrow> bool" where
  "tsOk P ts mk =
     (let tsbuf = ub64dec P ts
      in if length tsbuf < 32 then False
         else
           let ts1 = slicebuf tsbuf 0 16;
               ts2a = slicebuf tsbuf (length tsbuf - 16) 16;
               ts2b = aes_enc P mk ts1
           in ts2a = ts2b)"

text \<open>
  Members of a JSON value: \<^verbatim>\<open>v.name\<close> is \<^verbatim>\<open>undefined\<close> on a value that is not an object
  with that member (an object lists each of its members once). A member that the code uses as a string is read as one; a member
  of another type is read as absent.
\<close>

fun get_member :: "json \<Rightarrow> string \<Rightarrow> json option" where
  "get_member (JObj kvs) name = map_of kvs name"
| "get_member v name = None"

definition str_member :: "json \<Rightarrow> string \<Rightarrow> string option" where
  "str_member v name = (case get_member v name of Some (JStr t) \<Rightarrow> Some t | _ \<Rightarrow> None)"

text \<open>
  The identifiers in scope in the continuations that \<^verbatim>\<open>loginEphemeral\<close> (api.js,
  lines 318-337) and \<^verbatim>\<open>login\<close> (api.js, lines 355-386) pass to \<^verbatim>\<open>done\<close>: the parameter
  and the variables of the continuation, the parameters and variables of the method,
  and the globals the two files use. Neither method is inside a \<^verbatim>\<open>Defer.defer\<close>
  callback, as \<^verbatim>\<open>callMulti\<close> is, so no \<^verbatim>\<open>defer\<close> is among them.
\<close>

definition globals :: "string list" where
  "globals = [''GW'', ''MegaAPI'', ''Session'', ''Filesystem'', ''NodeType'', ''C'', ''Defer'',
     ''Log'', ''Duktape'', ''JSON'', ''_'']"

definition loginEphemeral_scope :: "string list" where
  "loginEphemeral_scope = [''res'', ''pk'', ''emk'', ''mk'', ''uh'', ''password''] @ globals"

definition login_scope :: "string list" where
  "login_scope = [''res'', ''emk'', ''mk'', ''sid'', ''email'', ''password'', ''pk''] @ globals"

text \<open>
  The statement \<^verbatim>\<open>defer.reject(code, msg); return;\<close> in a scope: reading an identifier
  that is not bound throws a ReferenceError.
\<close>

definition defer_reject :: "string list \<Rightarrow> string \<Rightarrow> string \<Rightarrow> 'a outcome" where
  "defer_reject scope code msg =
     (if ''defer'' \<in> set scope then Rejected code (Some msg)
      else Threw (ReferenceError ''defer''))"

record login_data =
  l_uh :: "string option"
  l_sid :: "string option"
  l_email :: "string option"
  l_password :: string
  l_pk :: bytes
  l_mk :: bytes

text \<open>
  The continuation of \<^verbatim>\<open>loginEphemeral\<close> (api.js, lines 318-337) on the answer \<open>res\<close>
  of the server, which carries \<^verbatim>\<open>k\<close> and \<^verbatim>\<open>tsid\<close>.
\<close>

definition loginEphemeral_done ::
  "prims \<Rightarrow> api_state \<Rightarrow> string \<Rightarrow> string \<Rightarrow> string \<Rightarrow> string \<Rightarrow> api_state \<times> login_data outcome" where
  "loginEphemeral_done P me uh pw res_k res_tsid =
     (let pk = aes_key_from_password P pw;
          emk = ub64dec P res_k;
          mk = aes_dec P pk emk
      in if \<not> tsOk P res_tsid mk then
           (me, defer_reject loginEphemeral_scope ''invalid_tsid''
                  ''Invalid password (TSID verification failed)'')
         else
           (setSessionId me (Some res_tsid) None,
            Resolved \<lparr>l_uh = Some uh, l_sid = Some res_tsid, l_email = None, l_password = pw,
                      l_pk = pk, l_mk = mk\<rparr>))"

text \<open>
  The continuation of \<^verbatim>\<open>login\<close> (api.js, lines 355-386) on the answer of the server:
  \<^verbatim>\<open>k\<close>, and the optional \<^verbatim>\<open>csid\<close>, \<^verbatim>\<open>tsid\<close>, \<^verbatim>\<open>privk\<close> and \<^verbatim>\<open>u\<close>.
\<close>

definition login_done ::
  "prims \<Rightarrow> api_state \<Rightarrow> string \<Rightarrow> string \<Rightarrow> string \<Rightarrow> string option \<Rightarrow> string option \<Rightarrow>
     string option \<Rightarrow> string option \<Rightarrow> api_state \<times> login_data outcome" where
  "login_done P me email pw res_k res_csid res_tsid res_privk res_u =
     (let pk = aes_key_from_password P pw;
          emk = ub64dec P res_k;
          mk = aes_dec P pk emk;
          resolved = (\<lambda>s. (setSessionId me s None,
                       Resolved \<lparr>l_uh = res_u, l_sid = s, l_email = Some email, l_password = pw,
                                 l_pk = pk, l_mk = mk\<rparr>))
      in if truthy res_csid then
           (let s = rsa_decrypt_sid P (or_empty res_privk) mk (the res_csid)
            in if \<not> truthy s then
                 (me, defer_reject login_scope ''sid_decrypt_fail''
                        ''Invalid password (CSID decryption failed)'')
               else resolved s)
         else if truthy res_tsid then
           (if \<not> tsOk P (the res_tsid) mk then
              (me, defer_reject login_scope ''invalid_tsid''
                     ''Invalid password (TSID verification failed)'')
            else resolved res_tsid)
         else resolved None)"

text \<open>
  The two methods whole: the request, and the continuation on its answer. An answer
  without the string \<^verbatim>\<open>k\<close> (for the ephemeral login, without the string \<^verbatim>\<open>tsid\<close>) makes
  the native base64 decoder refuse its argument with a TypeError.
\<close>

definition loginEphemeral ::
  "prims \<Rightarrow> api_state \<Rightarrow> string \<Rightarrow> string \<Rightarrow> http_event list \<Rightarrow>
     api_state \<times> http_request list \<times> login_data outcome" where
  "loginEphemeral P me uh pw events =
     (case call (setSessionId me None None) (JObj [(''a'', JStr ''us''), (''user'', JStr uh)]) events of
        (me', sent, timers, r) \<Rightarrow>
          (case r of
             Resolved res \<Rightarrow>
               (case res of
                  None \<Rightarrow> (me', sent, Threw (TypeError ''res''))
                | Some v \<Rightarrow>
                    (case (str_member v ''k'', str_member v ''tsid'') of
                       (Some k, Some tsid) \<Rightarrow>
                         (case loginEphemeral_done P me' uh pw k tsid of
                            (me'', r') \<Rightarrow> (me'', sent, r'))
                     | _ \<Rightarrow> (me', sent, Threw (TypeError ''ub64dec''))))
           | Pending \<Rightarrow> (me', sent, Pending)
           | Rejected c m \<Rightarrow> (me', sent, Rejected c m)
           | Threw e \<Rightarrow> (me', sent, Threw e)))"

definition lower_char :: "char \<Rightarrow> char" where
  "lower_char c =
     (let n = (of_char c :: nat) in if 65 \<le> n \<and> n \<le> 90 then char_of (n + 32) else c)"

definition login ::
  "prims \<Rightarrow> api_state \<Rightarrow> string \<Rightarrow> string \<Rightarrow> http_event list \<Rightarrow>
     api_state \<times> http_request list \<times> login_data outcome" where
  "login P me email pw events =
     (let pk = aes_key_from_password P pw
      in case call (setSessionId me None None)
                (JObj [(''a'', JStr ''us''), (''uh'', JStr (make_username_hash P pk email)),
                       (''user'', JStr (map lower_char email))]) events of
        (me', sent, timers, r) \<Rightarrow>
          (case r of
             Resolved res \<Rightarrow>
               (case res of
                  None \<Rightarrow> (me', sent, Threw (TypeError ''res''))
                | Some v \<Rightarrow>
                    (case str_member v ''k'' of
                       Some k \<Rightarrow>
                         (case login_done P me' email pw k (str_member v ''csid'')
                                 (str_member v ''tsid'') (str_member v ''privk'')
                                 (str_member v ''u'') of
                            (me'', r') \<Rightarrow> (me'', sent, r'))
                     | None \<Rightarrow> (me', sent, Threw (TypeError ''ub64dec''))))
           | Pending \<Rightarrow> (me', sent, Pending)
           | Rejected c m \<Rightarrow> (me', sent, Rejected c m)
           | Threw e \<Rightarrow> (me', sent, Threw e)))"

text \<open>\<^verbatim>\<open>getUser\<close> (api.js, lines 392-400): the user object of the answer.\<close>

definition getUser ::
  "api_state \<Rightarrow> http_event list \<Rightarrow> api_state \<times> http_request list \<times> json option outcome" where
  "getUser me events =
     (case call me (JObj [(''a'', JStr ''ug'')]) events of
        (me', sent, timers, r) \<Rightarrow> (me', sent, done_with r (\<lambda>user. Resolved user)))"

section \<open>Importing a node (session.js)\<close>

definition FILE :: int where "FILE = 0"
definition FOLDER :: int where "FOLDER = 1"
definition ROOT :: int where "ROOT = 2"
definition INBOX :: int where "INBOX = 3"
definition RUBBISH :: int where "RUBBISH = 4"
definition NETWORK :: int where "NETWORK = 9"
definition CONTACT :: int where "CONTACT = 8"
definition TOP :: int where "TOP = 9"

text \<open>
  The class \<^verbatim>\<open>[0-9a-z_-]\<close> under the flag \<^verbatim>\<open>i\<close>, which is also the class
  \<^verbatim>\<open>[a-zA-Z0-9_-]\<close> of \<^verbatim>\<open>isEphemeral\<close>.
\<close>

definition handle_char :: "char \<Rightarrow> bool" where
  "handle_char c =
     (let n = (of_char c :: nat)
      in (48 \<le> n \<and> n \<le> 57) \<or> (65 \<le> n \<and> n \<le> 90) \<or> (97 \<le> n \<and> n \<le> 122) \<or>
         c = CHR ''_'' \<or> c = CHR ''-'')"

text \<open>
  \<^verbatim>\<open>data.k.match(/[0-9a-z_-]{8,11}:[0-9a-z_-]{22,45}/ig)\<close> (session.js, line 275).
  No character of the class is a colon, so the expression matches at a position exactly
  when a run of 8 to 11 characters of the class starts there and ends at a colon that a
  run of at least 22 characters of the class follows; the match takes up to 45 of them.
  The search for the next match goes on after the match, or one character further when
  there is none. The result is the list of the matches (\<^verbatim>\<open>null\<close> for no match, over which
  the loop of the source does not run either).
\<close>

definition match_at :: "string \<Rightarrow> string option" where
  "match_at s =
     (let r = length (takeWhile handle_char s)
      in if 8 \<le> r \<and> r \<le> 11 \<and> take 1 (drop r s) = '':'' then
           (let m = length (takeWhile handle_char (drop (r + 1) s))
            in if 22 \<le> m then Some (take (r + 1 + min m 45) s) else None)
         else None)"

fun match_all_from :: "nat \<Rightarrow> string \<Rightarrow> string list" where
  "match_all_from skip [] = []"
| "match_all_from (Suc skip) (c # cs) = match_all_from skip cs"
| "match_all_from 0 (c # cs) =
     (case match_at (c # cs) of
        Some m \<Rightarrow> m # match_all_from (length m - 1) cs
      | None \<Rightarrow> match_all_from 0 cs)"

definition match_keys :: "string \<Rightarrow> string list" where
  "match_keys k = match_all_from 0 k"

text \<open>
  The array \<^verbatim>\<open>share_keys\<close>. An array made by \<^verbatim>\<open>[]\<close> has the member \<^verbatim>\<open>length\<close>, the
  number 0; it inherits the members of \<^verbatim>\<open>Array.prototype\<close> and \<^verbatim>\<open>Object.prototype\<close>, which
  are functions, and \<^verbatim>\<open>__proto__\<close>, which reads as the prototype object; every other
  member is \<^verbatim>\<open>undefined\<close>.
\<close>

definition Array_inherited :: "string list" where
  "Array_inherited =
     [''constructor'', ''toString'', ''toLocaleString'', ''concat'', ''join'', ''pop'',
      ''push'', ''reverse'', ''shift'', ''slice'', ''sort'', ''splice'', ''unshift'',
      ''indexOf'', ''lastIndexOf'', ''every'', ''some'', ''forEach'', ''map'', ''filter'',
      ''reduce'', ''reduceRight'', ''valueOf'', ''hasOwnProperty'', ''isPrototypeOf'',
      ''propertyIsEnumerable'', ''__proto__'']"

definition empty_array :: "string \<Rightarrow> key_value" where
  "empty_array name =
     (if name = ''length'' then KeyNumber 0
      else if name \<in> set Array_inherited then NotABuffer
      else NoKey)"

text \<open>
  The member names that are indexes of an array: the decimal text, without a leading
  zero, of a number below \<open>2 ^ 32 - 1\<close>.
\<close>

definition decimal :: "string \<Rightarrow> nat" where
  "decimal s = foldl (\<lambda>a c. 10 * a + (of_char c - 48)) 0 s"

definition array_index :: "string \<Rightarrow> nat option" where
  "array_index s =
     (if s \<noteq> [] \<and> list_all (\<lambda>c. 48 \<le> (of_char c :: nat) \<and> (of_char c :: nat) \<le> 57) s \<and>
         (if take 1 s = ''0'' then s = ''0'' else True) \<and> decimal s < 4294967295
      then Some (decimal s) else None)"

definition array_length :: "(string \<Rightarrow> key_value) \<Rightarrow> nat" where
  "array_length a = (case a ''length'' of KeyNumber l \<Rightarrow> l | _ \<Rightarrow> 0)"

text \<open>\<^verbatim>\<open>getShareKey\<close> (session.js, lines 513-515) reads the member of the array.\<close>

definition getShareKey :: "filesystem \<Rightarrow> string \<Rightarrow> key_value" where
  "getShareKey fs handle = share_keys fs handle"

text \<open>
  \<^verbatim>\<open>setShareKey\<close> (session.js, lines 517-519) assigns a buffer to the member of the
  array. For \<^verbatim>\<open>__proto__\<close> the assignment runs the setter of the prototype, which ignores
  a value that is not an object. For \<^verbatim>\<open>length\<close> it sets the length of the array, which
  removes the elements from the new length on, or it throws a RangeError. For an index
  it stores the element, and the length becomes the index plus one if it was smaller.
  For any other name it stores the member.
\<close>

definition setShareKey :: "prims \<Rightarrow> filesystem \<Rightarrow> string \<Rightarrow> bytes \<Rightarrow> js_error + filesystem" where
  "setShareKey P fs handle key =
     (let a = share_keys fs
      in if handle = ''__proto__'' then Inr fs
         else if handle = ''length'' then
           (case buffer_to_length P key of
              None \<Rightarrow> Inl RangeError
            | Some l \<Rightarrow>
                Inr (fs\<lparr>share_keys :=
                       (\<lambda>name. if name = ''length'' then KeyNumber l
                                else (case array_index name of
                                        Some i \<Rightarrow> (if l \<le> i then NoKey else a name)
                                      | None \<Rightarrow> a name))\<rparr>))
         else
           (case array_index handle of
              Some i \<Rightarrow>
                Inr (fs\<lparr>share_keys :=
                       a(handle := KeyBuf key,
                         ''length'' := KeyNumber (max (array_length a) (i + 1)))\<rparr>)
            | None \<Rightarrow> Inr (fs\<lparr>share_keys := a(handle := KeyBuf key)\<rparr>)))"

text \<open>
  The loop over the matches (session.js, lines 276-298): \<open>Inr None\<close> when the function
  returns \<^verbatim>\<open>null\<close> for a match that no key decrypts. The key is the master key or what
  \<^verbatim>\<open>getShareKey\<close> returns; an empty buffer and the number 0 are falsy, as \<^verbatim>\<open>undefined\<close>
  is. A truthy value that is not a buffer (a member the array inherits, or its length)
  is handed to \<^verbatim>\<open>C.aes_dec\<close> as the key, which takes a buffer there and throws a
  TypeError.
\<close>

fun load_keys ::
  "prims \<Rightarrow> session_data \<Rightarrow> filesystem \<Rightarrow> string list \<Rightarrow> node \<Rightarrow> js_error + node option" where
  "load_keys P sd fs [] n = Inr (Some n)"
| "load_keys P sd fs (m # ms) n =
     (let keyHandle = takeWhile (\<lambda>c. c \<noteq> CHR '':'') m;
          keyData = ub64dec P (takeWhile (\<lambda>c. c \<noteq> CHR '':'')
                      (drop 1 (dropWhile (\<lambda>c. c \<noteq> CHR '':'') m)));
          decKey = (if d_uh sd = Some keyHandle
                    then (case d_mk sd of None \<Rightarrow> NoKey | Some mk \<Rightarrow> KeyBuf mk)
                    else getShareKey fs keyHandle)
      in case decKey of
           NoKey \<Rightarrow> Inr None
         | KeyBuf key \<Rightarrow>
             (if key = [] then Inr None
              else if n_type n = FILE then
                load_keys P sd fs ms
                  (n\<lparr>n_key_full := Some (aes_dec P key keyData),
                     n_key := Some (file_node_key_unpack P (aes_dec P key keyData))\<rparr>)
              else
                load_keys P sd fs ms (n\<lparr>n_key := Some (aes_dec P key keyData)\<rparr>))
         | KeyNumber l \<Rightarrow> (if l = 0 then Inr None else Inl (TypeError ''aes_dec''))
         | NotABuffer \<Rightarrow> Inl (TypeError ''aes_dec''))"

text \<open>
  The test of a name on Windows (session.js, line 317) is \<^verbatim>\<open>name.match\<close> of a regular
  expression that is the sequence of nine escaped characters, slash, backslash, less-than,
  greater-than, colon, double quote, bar, question mark and star, one after the other,
  with no brackets around them: it matches a name that contains that sequence. The test
  elsewhere (line 322) is \<^verbatim>\<open>name.match\<close> of the expression of one slash, which matches a
  name that contains a slash.
\<close>

fun starts_with :: "string \<Rightarrow> string \<Rightarrow> bool" where
  "starts_with [] s = True"
| "starts_with (p # ps) [] = False"
| "starts_with (p # ps) (c # cs) = (p = c \<and> starts_with ps cs)"

fun contains_seq :: "string \<Rightarrow> string \<Rightarrow> bool" where
  "contains_seq pat [] = (pat = [])"
| "contains_seq pat (c # cs) = (starts_with pat (c # cs) \<or> contains_seq pat cs)"

definition windows_pattern :: string where
  "windows_pattern =
     [CHR ''/'', CHR 0x5C, CHR ''<'', CHR ''>'', CHR '':'', CHR 0x22, CHR ''|'', CHR ''?'', CHR ''*'']"

definition invalid_name :: "prims \<Rightarrow> string \<Rightarrow> bool" where
  "invalid_name P name =
     (if os P = ''windows'' then
        name = ''.'' \<or> name = ''..'' \<or> contains_seq windows_pattern name
      else
        name = ''.'' \<or> name = ''..'' \<or> contains_seq ''/'' name)"

text \<open>The fixed names of the root nodes (session.js, lines 329-335).\<close>

definition fixed_names :: "node \<Rightarrow> node" where
  "fixed_names n =
     (if n_type n = RUBBISH then n\<lparr>n_name := Some ''Rubbish''\<rparr>
      else if n_type n = INBOX then n\<lparr>n_name := Some ''Inbox''\<rparr>
      else if n_type n = ROOT then n\<lparr>n_name := Some ''Root''\<rparr>
      else n)"

text \<open>
  The share key of the node (session.js, lines 337-350). The declaration
  \<^verbatim>\<open>var esk = C.ub64dec(data.sk), sk;\<close> gives the decoded value to \<open>esk\<close> and leaves \<open>sk\<close>
  undefined; the next statement reads \<^verbatim>\<open>sk.length\<close>, and reading a member of
  \<^verbatim>\<open>undefined\<close> throws a TypeError.
\<close>

definition import_share_key ::
  "prims \<Rightarrow> session_data \<Rightarrow> filesystem \<Rightarrow> node_entry \<Rightarrow> node \<Rightarrow> js_error + filesystem" where
  "import_share_key P sd fs entry n =
     (if truthy (f_sk entry) then
        (let esk = ub64dec P (the (f_sk entry));
             sk = (None :: bytes option)
         in case sk of
              None \<Rightarrow> Inl (TypeError ''sk'')
            | Some b \<Rightarrow>
                (let sk' = (if length b > 16 then
                              rsa_decrypt P (or_empty (d_privk sd)) (or_empty (d_mk sd)) b
                            else if length b = 16 then Some (aes_dec P (or_empty (d_mk sd)) b)
                            else Some b)
                 in if truthy sk' then setShareKey P fs (n_handle n) (slicebuf (the sk') 0 16)
                    else Inr fs))
      else Inr fs)"

text \<open>
  \<^verbatim>\<open>Filesystem.importNode\<close> (session.js, lines 260-353): an exception (of the loop
  over the keys, of the attributes or of the share key), or the node (\<open>None\<close> for
  \<^verbatim>\<open>null\<close>) and the filesystem with the share key it may have set.
  \<^verbatim>\<open>JSON.parse\<close> of the \<^verbatim>\<open>null\<close> that \<^verbatim>\<open>buftojsonstring\<close> may return is \<^verbatim>\<open>null\<close>, whose member
  \<^verbatim>\<open>n\<close> cannot be read; a name that is not a string has no method \<^verbatim>\<open>match\<close>.
\<close>

definition importNode ::
  "prims \<Rightarrow> session_data \<Rightarrow> filesystem \<Rightarrow> node_entry \<Rightarrow> js_error + node option \<times> filesystem" where
  "importNode P sd fs entry =
     (let n0 = \<lparr>n_type = f_t entry, n_handle = f_h entry,
                 n_parent_handle = Some (if truthy (f_p entry) then the (f_p entry) else ''*TOP*''),
                 n_su_handle = f_su entry, n_user = f_u entry, n_size = f_s entry,
                 n_mtime = f_ts entry, n_key_full = None, n_key = None, n_attrs = None,
                 n_name = None\<rparr>
      in case (if truthy (f_k entry) then load_keys P sd fs (match_keys (the (f_k entry))) n0
               else Inr (Some n0)) of
           Inl e \<Rightarrow> Inl e
         | Inr None \<Rightarrow> Inr (None, fs)
         | Inr (Some n1) \<Rightarrow>
             (let named =
                (if truthy (n_key n1) \<and> truthy (f_a entry) then
                   (let a = ub64dec P (the (f_a entry));
                        attrs = aes_dec_cbc P (the (n_key n1)) a
                    in if truthy attrs \<and> slicebuf (the attrs) 0 5 = Duktape_Buffer ''MEGA{'' then
                         (case buftojsonstring P (slicebuf_from (the attrs) 4) of
                            None \<Rightarrow> Inl (TypeError ''attrs'')
                          | Some t \<Rightarrow>
                              (case JSON_parse P t of
                                 None \<Rightarrow> Inl SyntaxError
                               | Some v \<Rightarrow>
                                   (case str_member v ''n'' of
                                      None \<Rightarrow> Inl (TypeError ''name'')
                                    | Some name \<Rightarrow>
                                        (if invalid_name P name then Inr None
                                         else Inr (Some (n1\<lparr>n_attrs := Some v,
                                                             n_name := Some name\<rparr>))))))
                       else Inr None)
                 else Inr (Some n1))
              in case named of
                   Inl e \<Rightarrow> Inl e
                 | Inr None \<Rightarrow> Inr (None, fs)
                 | Inr (Some n2) \<Rightarrow>
                     (let n3 = fixed_names n2
                      in case import_share_key P sd fs entry n3 of
                           Inl e \<Rightarrow> Inl e
                         | Inr fs' \<Rightarrow> Inr (Some n3, fs'))))"

section \<open>Loading the filesystem (session.js)\<close>

text \<open>
  The members that \<^verbatim>\<open>GW.define\<close> gives a \<^verbatim>\<open>MegaAPI\<close> object (api.js, lines 87-792) and a
  \<^verbatim>\<open>Filesystem\<close> object (session.js, lines 241-520), by name.
\<close>

definition MegaAPI_members :: "string list" where
  "MegaAPI_members =
     [''host'', ''errorMessages'', ''errorCodes'', ''getErrorName'', ''getErrorMessage'',
      ''sid'', ''sidParamName'', ''callId'', ''setSessionId'', ''callMulti'', ''call'',
      ''createBatch'', ''registerEphemeral'', ''tsOk'', ''loginEphemeral'', ''login'',
      ''getUser'', ''updateUser'', ''requestConfirmation'', ''registerUser'',
      ''confirmUserFast'', ''getConfirmationData'', ''confirmUser'', ''completeUserReset'',
      ''requestUserReset'', ''addContact'', ''removeContact'', ''getUsage'',
      ''getPublicLink'', ''removePublicLink'', ''shareFolder'', ''unshareFolder'',
      ''getPubkForAccount'', ''deleteNode'', ''moveNode'', ''renameNode'', ''createFolder'']"

definition Filesystem_members :: "string list" where
  "Filesystem_members =
     [''initObject'', ''getData'', ''setData'', ''importNode'', ''load'', ''getNodeByHandle'',
      ''mapPaths'', ''getPaths'', ''getNodeByPath'', ''getNodePath'', ''mapChildren'',
      ''getChildren'', ''getShareKey'', ''setShareKey'']"

text \<open>The elements of \<^verbatim>\<open>ok\<close> and \<^verbatim>\<open>u\<close>, and the answer to the request \<^verbatim>\<open>{a:'f'}\<close>.\<close>

record ok_entry =
  ok_h :: string
  ok_ha :: string
  ok_k :: string

record user_entry =
  u_u :: string
  u_c :: int
  u_m :: "string option"
  u_ts :: "int option"

record f_response =
  r_ok :: "ok_entry list option"
  r_f :: "node_entry list option"
  r_u :: "user_entry list option"

definition plain_node :: "int \<Rightarrow> string \<Rightarrow> string option \<Rightarrow> string option \<Rightarrow> int option \<Rightarrow> node" where
  "plain_node ty handle parent name mtime =
     \<lparr>n_type = ty, n_handle = handle, n_parent_handle = parent, n_su_handle = None,
      n_user = None, n_size = Some 0, n_mtime = mtime, n_key_full = None, n_key = None,
      n_attrs = None, n_name = name\<rparr>"

text \<open>
  The assignment \<^verbatim>\<open>this.nodes[handle] = node\<close>. For \<^verbatim>\<open>__proto__\<close> it runs the setter of
  the prototype, and the object gets no member of its own.
\<close>

definition set_node :: "filesystem \<Rightarrow> string \<Rightarrow> node \<Rightarrow> filesystem" where
  "set_node fs handle n =
     (if handle = ''__proto__'' then fs else fs\<lparr>nodes := (nodes fs)(handle \<mapsto> n)\<rparr>)"

text \<open>The loop over \<^verbatim>\<open>r.ok\<close> (session.js, lines 372-390).\<close>

fun load_ok ::
  "prims \<Rightarrow> session_data \<Rightarrow> ok_entry list \<Rightarrow> filesystem \<Rightarrow> js_error + filesystem" where
  "load_ok P sd [] fs = Inr fs"
| "load_ok P sd (ok # rest) fs =
     (let h = Duktape_Buffer (ok_h ok);
          ha = aes_dec P (or_empty (d_mk sd)) (ub64dec P (ok_ha ok));
          k = aes_dec P (or_empty (d_mk sd)) (ub64dec P (ok_k ok))
      in if ha = joinbuf h h then
           (case setShareKey P fs h k of
              Inl e \<Rightarrow> Inl e
            | Inr fs' \<Rightarrow> load_ok P sd rest fs')
         else load_ok P sd rest fs)"

text \<open>The loop over \<^verbatim>\<open>r.f\<close> (session.js, lines 399-404).\<close>

fun load_f :: "prims \<Rightarrow> session_data \<Rightarrow> node_entry list \<Rightarrow> filesystem \<Rightarrow> js_error + filesystem" where
  "load_f P sd [] fs = Inr fs"
| "load_f P sd (entry # rest) fs =
     (case importNode P sd fs entry of
        Inl e \<Rightarrow> Inl e
      | Inr (None, fs') \<Rightarrow> load_f P sd rest fs'
      | Inr (Some n, fs') \<Rightarrow> load_f P sd rest (set_node fs' (n_handle n) n))"

text \<open>The loop over \<^verbatim>\<open>r.u\<close> (session.js, lines 416-431).\<close>

fun load_u :: "user_entry list \<Rightarrow> filesystem \<Rightarrow> filesystem" where
  "load_u [] fs = fs"
| "load_u (u # rest) fs =
     load_u rest
       (if u_c u = 1 then
          set_node fs (u_u u) (plain_node CONTACT (u_u u) (Some ''*NETWORK'') (u_m u) (u_ts u))
        else fs)"

text \<open>
  The continuation of \<^verbatim>\<open>load\<close> (session.js, lines 360-435) on the answer \<open>r\<close>, up to
  the contacts. In the mode of an exported folder it calls \<^verbatim>\<open>this.addShareKey\<close>, which
  is looked up among the members of the filesystem.
\<close>

definition load_done ::
  "prims \<Rightarrow> session_data \<Rightarrow> filesystem \<Rightarrow> f_response \<Rightarrow> js_error + filesystem" where
  "load_done P sd fs r =
     (let fs1 = fs\<lparr>nodes := Map.empty(''*TOP*'' \<mapsto>
                   (plain_node TOP ''*TOP*'' None (Some []) (Some 0)))\<rparr>
      in case (case r_ok r of None \<Rightarrow> Inr fs1 | Some oks \<Rightarrow> load_ok P sd oks fs1) of
           Inl e \<Rightarrow> Inl e
         | Inr fs2 \<Rightarrow>
             (case (case r_f r of
                      None \<Rightarrow> Inr fs2
                    | Some entries \<Rightarrow>
                        (if d_isExportedFolder sd then
                           (case entries of
                              [] \<Rightarrow> Inl (TypeError ''p'')
                            | e0 # es \<Rightarrow>
                                (if ''addShareKey'' \<in> set Filesystem_members then
                                   (case setShareKey P fs2 (f_h e0) (or_empty (d_mk sd)) of
                                      Inl e \<Rightarrow> Inl e
                                    | Inr fs3 \<Rightarrow> load_f P sd (e0\<lparr>f_p := None\<rparr> # es) fs3)
                                 else Inl (TypeError ''addShareKey'')))
                         else load_f P sd entries fs2)) of
                Inl e \<Rightarrow> Inl e
              | Inr fs4 \<Rightarrow>
                  (let fs5 = fs4\<lparr>nodes := (nodes fs4)(''*NETWORK'' \<mapsto>
                                plain_node NETWORK ''*NETWORK'' (Some ''*TOP*'') (Some ''Contacts'')
                                  (Some 0))\<rparr>
                   in Inr (case r_u r of None \<Rightarrow> fs5 | Some us \<Rightarrow> load_u us fs5))))"

text \<open>
  \<^verbatim>\<open>Filesystem.load\<close> (session.js, lines 355-436). The expression
  \<^verbatim>\<open>this.session.api.callSingle({a:'f', c:1, r:1})\<close> reads the member \<^verbatim>\<open>callSingle\<close> of the
  API object and calls it. A member the object does not have is \<^verbatim>\<open>undefined\<close>, and calling
  it throws a TypeError before anything is sent. No file of the repository defines what
  such a member would do, so it is the parameter \<open>rpc\<close>: it is given the request and the
  continuation.
\<close>

definition load_request :: json where
  "load_request = JObj [(''a'', JStr ''f''), (''c'', JNum 1), (''r'', JNum 1)]"

definition Filesystem_load ::
  "prims \<Rightarrow> session_data \<Rightarrow> filesystem \<Rightarrow>
     (json \<Rightarrow> (f_response \<Rightarrow> js_error + filesystem) \<Rightarrow> 'r) \<Rightarrow> js_error + 'r" where
  "Filesystem_load P sd fs rpc =
     (if ''callSingle'' \<in> set MegaAPI_members then Inr (rpc load_request (load_done P sd fs))
      else Inl (TypeError ''callSingle''))"

section \<open>Opening a session (session.js)\<close>

record session =
  s_creds :: credentials
  s_api :: api_state
  s_data :: session_data
  s_fs :: filesystem

text \<open>\<^verbatim>\<open>Filesystem.getData\<close> and \<^verbatim>\<open>setData\<close> (session.js, lines 250-258).\<close>

definition getData :: "prims \<Rightarrow> filesystem \<Rightarrow> bytes" where
  "getData P fs = Duktape_Buffer (enc_jx_fs P fs)"

definition setData :: "prims \<Rightarrow> filesystem \<Rightarrow> bytes \<Rightarrow> js_error + filesystem" where
  "setData P fs content =
     (case dec_jx_fs P content of
        None \<Rightarrow> Inl SyntaxError
      | Some saved \<Rightarrow> Inr (fs\<lparr>nodes := nodes saved, share_keys := share_keys saved\<rparr>))"

text \<open>
  \<^verbatim>\<open>Session.load\<close> (session.js, lines 114-128): an exception of the decoder, or the
  boolean it returns and the session with what it loaded.
\<close>

definition Session_load :: "prims \<Rightarrow> session \<Rightarrow> disk \<Rightarrow> js_error + bool \<times> session" where
  "Session_load P s d =
     (let plain_payload = loadSessionFile P (s_creds s) None d
      in if \<not> truthy plain_payload then Inr (False, s)
         else
           (case dec_jx_session P (the plain_payload) of
              None \<Rightarrow> Inl SyntaxError
            | Some loaded \<Rightarrow>
                (let s1 = s\<lparr>s_data := loaded\<rparr>;
                     fs_data = loadSessionFile P (s_creds s) (Some ''fs'') d
                 in if truthy fs_data then
                      (case setData P (s_fs s1) (the fs_data) of
                         Inl e \<Rightarrow> Inl e
                       | Inr fs' \<Rightarrow> Inr (True, s1\<lparr>s_fs := fs'\<rparr>))
                    else Inr (True, s1))))"

text \<open>
  \<^verbatim>\<open>Session.save\<close> (session.js, lines 131-139) at the time \<open>now\<close>, the value of
  \<^verbatim>\<open>(new Date).getTime()\<close>.
\<close>

definition Session_save :: "prims \<Rightarrow> int \<Rightarrow> session \<Rightarrow> disk \<Rightarrow> bool \<times> session \<times> disk" where
  "Session_save P now s d =
     (let s1 = s\<lparr>s_data := (s_data s)\<lparr>d_saved := Some now, d_sid := sid (s_api s),
                                        d_sidParamName := sidParamName (s_api s)\<rparr>\<rparr>
      in case saveSessionFile P (s_creds s1) (Some ''fs'') (getData P (s_fs s1)) d of
           (ok1, d1) \<Rightarrow>
             (case saveSessionFile P (s_creds s1) None
                     (Duktape_Buffer (enc_jx_session P (s_data s1))) d1 of
                (ok2, d2) \<Rightarrow> (ok2, s1, d2)))"

text \<open>
  \<^verbatim>\<open>Session.isFresh\<close> (session.js, lines 142-144), with \<^verbatim>\<open>timeout: 60 * 60\<close> (line 50).
  The number \<^verbatim>\<open>saved\<close> is truthy when it is not zero.
\<close>

definition timeout :: int where
  "timeout = 60 * 60"

definition isFresh :: "session \<Rightarrow> int \<Rightarrow> bool" where
  "isFresh s now =
     (case d_saved (s_data s) of
        None \<Rightarrow> False
      | Some saved \<Rightarrow> saved \<noteq> 0 \<and> saved > now - timeout * 1000)"

text \<open>
  \<^verbatim>\<open>Session.isEphemeral\<close> (session.js, lines 146-148): the whole username is eleven
  characters of the class.
\<close>

definition isEphemeral :: "session \<Rightarrow> bool" where
  "isEphemeral s =
     (username (s_creds s) \<noteq> [] \<and> length (username (s_creds s)) = 11 \<and>
      list_all handle_char (username (s_creds s)))"

text \<open>
  The function \<^verbatim>\<open>getUser\<close> inside \<^verbatim>\<open>open\<close> (session.js, lines 154-164). Reading
  \<^verbatim>\<open>res.user.u\<close> throws when the user object is \<^verbatim>\<open>undefined\<close> or \<^verbatim>\<open>null\<close>.
\<close>

definition open_getUser ::
  "prims \<Rightarrow> int \<Rightarrow> session \<Rightarrow> disk \<Rightarrow> http_event list \<Rightarrow>
     session \<times> disk \<times> http_request list \<times> unit outcome" where
  "open_getUser P now s d events =
     (case getUser (s_api s) events of
        (api', sent, r) \<Rightarrow>
          (let s1 = s\<lparr>s_api := api'\<rparr>
           in case r of
                Resolved user \<Rightarrow>
                  (case user of
                     None \<Rightarrow> (s1, d, sent, Threw (TypeError ''user''))
                   | Some JNull \<Rightarrow> (s1, d, sent, Threw (TypeError ''user''))
                   | Some u \<Rightarrow>
                       (let s2 = s1\<lparr>s_data := (s_data s1)\<lparr>d_user := Some u,
                                     d_uh := str_member u ''u'', d_pubk := str_member u ''pubk'',
                                     d_privk := str_member u ''privk''\<rparr>\<rparr>
                        in case Session_save P now s2 d of
                             (ok, s3, d') \<Rightarrow> (s3, d', sent, Resolved ())))
              | Pending \<Rightarrow> (s1, d, sent, Pending)
              | Rejected c m \<Rightarrow> (s1, d, sent, Rejected c m)
              | Threw e \<Rightarrow> (s1, d, sent, Threw e)))"

text \<open>The function \<^verbatim>\<open>login\<close> inside \<^verbatim>\<open>open\<close> (session.js, lines 166-176).\<close>

definition open_login ::
  "prims \<Rightarrow> session \<Rightarrow> http_event list \<Rightarrow> session \<times> http_request list \<times> unit outcome" where
  "open_login P s events =
     (case (if isEphemeral s then
              loginEphemeral P (s_api s) (username (s_creds s)) (password (s_creds s)) events
            else login P (s_api s) (username (s_creds s)) (password (s_creds s)) events) of
        (api', sent, r) \<Rightarrow>
          (case r of
             Resolved res \<Rightarrow>
               (s\<lparr>s_api := api', s_data := (s_data s)\<lparr>d_mk := Some (l_mk res)\<rparr>\<rparr>, sent,
                Resolved ())
           | Pending \<Rightarrow> (s\<lparr>s_api := api'\<rparr>, sent, Pending)
           | Rejected c m \<Rightarrow> (s\<lparr>s_api := api'\<rparr>, sent, Rejected c m)
           | Threw e \<Rightarrow> (s\<lparr>s_api := api'\<rparr>, sent, Threw e)))"

text \<open>
  The answers of the transport to the calls of one \<^verbatim>\<open>open\<close>, call by call; a call past
  the end of the list is not answered.
\<close>

definition script :: "http_event list list \<Rightarrow> nat \<Rightarrow> http_event list" where
  "script scripts i = (if i < length scripts then scripts ! i else [])"

text \<open>The function \<^verbatim>\<open>loginAndGetUser\<close> inside \<^verbatim>\<open>open\<close> (session.js, lines 178-182).\<close>

definition loginAndGetUser ::
  "prims \<Rightarrow> int \<Rightarrow> session \<Rightarrow> disk \<Rightarrow> http_event list list \<Rightarrow>
     session \<times> disk \<times> http_request list \<times> unit outcome" where
  "loginAndGetUser P now s d scripts =
     (case open_login P s (script scripts 0) of
        (s1, sent1, r1) \<Rightarrow>
          (case r1 of
             Resolved u \<Rightarrow>
               (case open_getUser P now s1 d (script scripts 1) of
                  (s2, d2, sent2, r2) \<Rightarrow> (s2, d2, sent1 @ sent2, r2))
           | Pending \<Rightarrow> (s1, d, sent1, Pending)
           | Rejected c m \<Rightarrow> (s1, d, sent1, Rejected c m)
           | Threw e \<Rightarrow> (s1, d, sent1, Threw e)))"

text \<open>
  \<^verbatim>\<open>Session.open\<close> (session.js, lines 150-200) at the time \<open>now\<close>: the session and
  the disk after it, the HTTP requests it sent, in order, and the state of the deferred
  it returns.
\<close>

definition Session_open ::
  "prims \<Rightarrow> int \<Rightarrow> session \<Rightarrow> bool \<Rightarrow> disk \<Rightarrow> http_event list list \<Rightarrow>
     session \<times> disk \<times> http_request list \<times> unit outcome" where
  "Session_open P now s forceCheck d scripts =
     (case Session_load P s d of
        Inl e \<Rightarrow> (s, d, [], Threw e)
      | Inr (loaded, s1) \<Rightarrow>
          (if loaded then
             (if isFresh s1 now \<and> \<not> forceCheck then (s1, d, [], Resolved ())
              else
                (let s2 = s1\<lparr>s_api := setSessionId (s_api s1) (d_sid (s_data s1))
                                          (d_sidParamName (s_data s1))\<rparr>
                 in case open_getUser P now s2 d (script scripts 0) of
                      (s3, d3, sent3, r3) \<Rightarrow>
                        (case r3 of
                           Rejected c m \<Rightarrow>
                             (case loginAndGetUser P now s3 d3 (drop 1 scripts) of
                                (s4, d4, sent4, r4) \<Rightarrow> (s4, d4, sent3 @ sent4, r4))
                         | _ \<Rightarrow> (s3, d3, sent3, r3))))
           else loginAndGetUser P now s1 d scripts))"

section \<open>A small instance of the native helpers\<close>

text \<open>
  An instance of the helpers on which the functions above can be run: a byte-wise
  exclusive-or with the first byte of the key for every cipher, the first 32 bytes
  (zero-padded) for the digest, the identity for base64, zero padding for \<^verbatim>\<open>alignbuf\<close>,
  and a JSON reader and writer for objects of the one member \<open>n\<close>, a string without
  double quotes. It shows that the contracts above can be met together.
\<close>

fun xorc :: "char \<Rightarrow> char \<Rightarrow> char" where
  "xorc (Char a0 a1 a2 a3 a4 a5 a6 a7) (Char b0 b1 b2 b3 b4 b5 b6 b7) =
     Char (a0 \<noteq> b0) (a1 \<noteq> b1) (a2 \<noteq> b2) (a3 \<noteq> b3) (a4 \<noteq> b4) (a5 \<noteq> b5) (a6 \<noteq> b6) (a7 \<noteq> b7)"

definition toy_mask :: "bytes \<Rightarrow> char" where
  "toy_mask k = (case k of [] \<Rightarrow> CHR 0x2A | c # cs \<Rightarrow> c)"

definition toy_xor :: "bytes \<Rightarrow> bytes \<Rightarrow> bytes" where
  "toy_xor k x = map (xorc (toy_mask k)) x"

definition toy_digest :: "bytes \<Rightarrow> bytes" where
  "toy_digest b = take 32 (b @ replicate 32 (CHR 0x00))"

definition toy_align :: "bytes \<Rightarrow> nat \<Rightarrow> bool \<Rightarrow> bytes" where
  "toy_align b n r = b @ replicate ((n - length b mod n) mod n) (CHR 0x00)"

definition toy_open :: string where
  "toy_open = [CHR ''{'', CHR 0x22, CHR ''n'', CHR 0x22, CHR '':'', CHR 0x22]"

definition toy_close :: string where
  "toy_close = [CHR 0x22, CHR ''}'']"

definition toy_stringify :: "json \<Rightarrow> string" where
  "toy_stringify v =
     (case v of
        JObj [(k, JStr name)] \<Rightarrow> (if k = ''n'' then toy_open @ name @ toy_close else ''{}'')
      | JObj kvs \<Rightarrow> ''{}''
      | _ \<Rightarrow> ''null'')"

definition toy_parse :: "string \<Rightarrow> json option" where
  "toy_parse t =
     (let name = take (length t - 8) (drop 6 t)
      in if 8 \<le> length t \<and> take 6 t = toy_open \<and> drop (length t - 2) t = toy_close \<and>
            CHR 0x22 \<notin> set name
         then Some (JObj [(''n'', JStr name)])
         else None)"

definition toy_jsonstring :: "bytes \<Rightarrow> string option" where
  "toy_jsonstring b =
     (let t = takeWhile (\<lambda>c. c \<noteq> CHR 0x00) b
      in if toy_parse t = None then None else Some t)"

definition toy_session_data :: "string \<Rightarrow> session_data" where
  "toy_session_data t =
     \<lparr>d_saved = (if t = [] then None else Some (int (length t))), d_sid = None,
      d_sidParamName = None, d_mk = None, d_uh = None, d_pubk = None, d_privk = None,
      d_user = None, d_isExportedFolder = False\<rparr>"

definition toy_fs :: filesystem where
  "toy_fs = \<lparr>nodes = Map.empty, share_keys = empty_array\<rparr>"

definition toyP :: prims where
  "toyP =
     \<lparr>os = ''linux'',
      get_tmp_dir = ''/tmp'',
      sha256_digest = toy_digest,
      aes_key_from_password = (\<lambda>pw. take 16 (pw @ replicate 16 (CHR 0x00))),
      aes_enc = toy_xor,
      aes_dec = toy_xor,
      aes_enc_cbc = toy_xor,
      aes_dec_cbc = (\<lambda>k x. if length x mod 16 = 0 then Some (toy_xor k x) else None),
      aes_ctr = (\<lambda>k n c x. toy_xor k x),
      rsa_decrypt = (\<lambda>privk mk x. Some x),
      rsa_decrypt_sid = (\<lambda>privk mk csid. Some csid),
      make_username_hash = (\<lambda>k email. take 8 email),
      file_node_key_unpack = (\<lambda>k. take 16 k),
      ub64enc = (\<lambda>b. b),
      ub64dec = (\<lambda>t. t),
      alignbuf = toy_align,
      buftojsonstring = toy_jsonstring,
      JSON_stringify = toy_stringify,
      JSON_parse = toy_parse,
      enc_jx_session = (\<lambda>sd. replicate (nat (case d_saved sd of None \<Rightarrow> 0 | Some t \<Rightarrow> t)) (CHR ''s'')),
      dec_jx_session = (\<lambda>t. Some (toy_session_data t)),
      enc_jx_fs = (\<lambda>fs. ''fs''),
      dec_jx_fs = (\<lambda>t. Some toy_fs),
      buffer_to_length = (\<lambda>b. if b = [] then Some 0 else None)\<rparr>"



definition toy_session :: session where
  "toy_session =
     \<lparr>s_creds = setCredentials toyP ''alice@x'' ''pw'', s_api = new_api,
      s_data = toy_session_data [], s_fs = toy_fs\<rparr>"

section \<open>Projections and inputs of the examples\<close>

text \<open>The deferreds of the calls of a batch after \<^verbatim>\<open>send\<close>.\<close>

definition send_calls :: "api_state \<Rightarrow> json list \<Rightarrow> http_event list \<Rightarrow> json outcome list" where
  "send_calls me requests events = fst (snd (snd (snd (send me requests events))))"

text \<open>Fifteen answers \<^verbatim>\<open>onerror('busy', ...)\<close> in a row.\<close>

definition busy15 :: "http_event list" where
  "busy15 = replicate 15 (OnError ''busy'' ''try later'')"

text \<open>The small instance on Windows.\<close>

definition windowsP :: prims where
  "windowsP = toyP\<lparr>os := ''windows''\<rparr>"

text \<open>
  A session that knows its user handle and master key, a folder entry that carries a
  share key, and a folder entry whose key is wrapped for the user and whose attributes
  hold the name \<^verbatim>\<open>a/b\<close>.
\<close>

definition toy_user :: session_data where
  "toy_user = (toy_session_data [])\<lparr>d_uh := Some ''AAAAAAAAAAA'', d_mk := Some ''0123456789abcdef''\<rparr>"

definition entry_sk :: node_entry where
  "entry_sk =
     \<lparr>f_t = 1, f_h = ''h0000001'', f_p = None, f_su = None, f_u = None, f_s = None,
      f_ts = None, f_k = None, f_a = None, f_sk = Some ''AAAAAAAAAAAAAAAAAAAAAA''\<rparr>"

definition entry_slash :: node_entry where
  "entry_slash =
     \<lparr>f_t = 1, f_h = ''h0000002'', f_p = None, f_su = None, f_u = None, f_s = None,
      f_ts = None, f_k = Some ''AAAAAAAAAAA:BBBBBBBBBBBBBBBBBBBBBB'',
      f_a = Some (makeNodeAttrs toyP (toy_xor ''0123456789abcdef'' ''BBBBBBBBBBBBBBBBBBBBBB'')
                    (JObj [(''n'', JStr ''a/b'')])),
      f_sk = None\<rparr>"

text \<open>What \<^verbatim>\<open>importNode\<close> returns or throws, without the filesystem.\<close>

definition import_result :: "js_error + node option \<times> filesystem \<Rightarrow> js_error + node option" where
  "import_result r = map_sum id fst r"

section \<open>The small instance meets the contracts\<close>

lemma xorc_twice: "xorc m (xorc m c) = c"
  by (cases m; cases c) auto

lemma xorc_inj: "(xorc m a = xorc m b) = (a = b)"
  by (metis xorc_twice)


lemma toy_xor_twice: "toy_xor k (toy_xor k x) = x"
  by (induction x) (simp_all add: toy_xor_def xorc_twice)

lemma toyP_fields:
  "os toyP = ''linux''"
  "get_tmp_dir toyP = ''/tmp''"
  "sha256_digest toyP = toy_digest"
  "aes_key_from_password toyP = (\<lambda>pw. take 16 (pw @ replicate 16 (CHR 0x00)))"
  "aes_enc toyP = toy_xor"
  "aes_dec toyP = toy_xor"
  "aes_enc_cbc toyP = toy_xor"
  "aes_dec_cbc toyP = (\<lambda>k x. if length x mod 16 = 0 then Some (toy_xor k x) else None)"
  "aes_ctr toyP = (\<lambda>k n c x. toy_xor k x)"
  "ub64enc toyP = (\<lambda>b. b)"
  "ub64dec toyP = (\<lambda>t. t)"
  "alignbuf toyP = toy_align"
  "buftojsonstring toyP = toy_jsonstring"
  "JSON_stringify toyP = toy_stringify"
  "JSON_parse toyP = toy_parse"
  "file_node_key_unpack toyP = (\<lambda>k. take 16 k)"
  "dec_jx_session toyP = (\<lambda>t. Some (toy_session_data t))"
  "dec_jx_fs toyP = (\<lambda>t. Some toy_fs)"
  "enc_jx_fs toyP = (\<lambda>fs. ''fs'')"
  "enc_jx_session toyP =
     (\<lambda>sd. replicate (nat (case d_saved sd of None \<Rightarrow> 0 | Some t \<Rightarrow> t)) (CHR ''s''))"
  by (simp_all add: toyP_def)

lemmas toy_eval = toyP_fields toy_digest_def toy_xor_def toy_mask_def setCredentials_def
  Duktape_Buffer_def slicebuf_def slicebuf_from_def joinbuf_def

lemma toy_digest_contract: "digest_contract toyP"
  by (auto simp: digest_contract_def toyP_fields toy_digest_def)

lemma toy_ctr_contract: "ctr_contract toyP"
  by (simp add: ctr_contract_def toyP_fields toy_xor_twice) (simp add: toy_xor_def xorc_inj)

section \<open>Properties of the session file\<close>



lemma loadSessionFile_present:
  assumes "d (getSessionFilePath P s name) = Some content" and "content \<noteq> []"
  shows "loadSessionFile P s name d =
           (if sha256_digest P (drop 32 (decrypted P s name content))
                 \<noteq> take 32 (decrypted P s name content)
            then None else Some (drop 32 (decrypted P s name content)))"
  using assms
  by (simp add: loadSessionFile_def file_read_def Let_def slicebuf_def slicebuf_from_def
      decrypted_def)

lemma ctr_length: "ctr_contract P \<Longrightarrow> length (aes_ctr P k n c x) = length x"
  by (simp add: ctr_contract_def)

lemma ctr_undo: "ctr_contract P \<Longrightarrow> aes_ctr P k n c (aes_ctr P k n c x) = x"
  by (simp add: ctr_contract_def)


lemma digest_length: "digest_contract P \<Longrightarrow> length (sha256_digest P b) = 32"
  by (simp add: digest_contract_def)


lemma decrypted_stored:
  "ctr_contract P \<Longrightarrow> decrypted P s name (stored_blob P s name p) = sha256_digest P p @ p"
  by (simp add: decrypted_def stored_blob_def ctr_undo joinbuf_def)

lemma stored_length:
  "digest_contract P \<Longrightarrow> ctr_contract P \<Longrightarrow> length (stored_blob P s name p) = 32 + length p"
  by (simp add: stored_blob_def ctr_length joinbuf_def digest_length)


lemma loadSessionFile_stored:
  assumes "digest_contract P" and "ctr_contract P"
  shows "loadSessionFile P s name (d(getSessionFilePath P s name \<mapsto> stored_blob P s name p))
           = Some p"
proof -
  have "stored_blob P s name p \<noteq> []"
    using stored_length [OF assms, of s name p] by auto
  then show ?thesis
    using assms
    by (simp add: loadSessionFile_present decrypted_stored digest_length)
qed










section \<open>Properties of the encrypted node attributes\<close>














section \<open>Properties of callMulti\<close>

lemma doRequest_retry:
  assumes "code = ''busy'' \<or> code = ''no_response''" and "t < 120000000"
  shows "doRequest rq t (OnError code msg # es) =
           (case doRequest rq (2 * t) es of (sent, timers, r) \<Rightarrow> (rq # sent, t # timers, r))"
  using assms by (auto simp: mult.commute)

lemma doRequest_gives_up:
  assumes "code = ''busy'' \<or> code = ''no_response''" and "\<not> t < 120000000"
  shows "doRequest rq t (OnError code msg # es) = ([rq], [], Pending)"
  using assms by auto

lemma doRequest_other_error:
  assumes "code \<noteq> ''busy''" and "code \<noteq> ''no_response''"
  shows "doRequest rq t (OnError code msg # es) = ([rq], [], Rejected code (Some msg))"
  using assms by simp

lemma doRequest_shape:
  "doRequest rq t es = (sent, timers, r) \<Longrightarrow>
     sent = replicate (length timers + 1) rq \<and>
     timers = map (\<lambda>i. t * 2 ^ i) [0..<length timers] \<and>
     (\<forall>d\<in>set timers. d < 120000000)"
proof (induction es arbitrary: t sent timers r)
  case Nil
  then show ?case by simp
next
  case (Cons e es)
  show ?case
  proof (cases e)
    case (OnLoad v)
    then show ?thesis using Cons.prems by (cases v) auto
  next
    case (OnError code msg)
    show ?thesis
    proof (cases "(code = ''busy'' \<or> code = ''no_response'') \<and> t < 120000000")
      case False
      then show ?thesis using Cons.prems OnError by (auto split: if_splits)
    next
      case True
      obtain sent' timers' r' where rec: "doRequest rq (2 * t) es = (sent', timers', r')"
        by (cases "doRequest rq (2 * t) es") auto
      have out: "sent = rq # sent'" "timers = t # timers'"
        using Cons.prems OnError True rec doRequest_retry [of code t rq msg es] by auto
      have ih: "sent' = replicate (length timers' + 1) rq"
        "timers' = map (\<lambda>i. 2 * t * 2 ^ i) [0..<length timers']"
        "\<forall>d\<in>set timers'. d < 120000000"
        using Cons.IH [OF rec] by auto
      have "map (\<lambda>i. t * 2 ^ i) [0..<length timers] = t # map (\<lambda>i. 2 * t * 2 ^ i) [0..<length timers']"
        by (simp add: out(2) map_upt_Suc mult.commute mult.left_commute del: upt_Suc)
      then show ?thesis
        using out ih True by simp
    qed
  qed
qed

lemma pow2_bound:
  assumes "10000 * 2 ^ n < (120000000 :: nat)"
  shows "n < 14"
proof (rule ccontr)
  assume "\<not> n < 14"
  then have "(2::nat) ^ 14 \<le> 2 ^ n"
    by (intro power_increasing) simp_all
  then have "(10000::nat) * 2 ^ 14 \<le> 10000 * 2 ^ n" by simp
  then show False using assms by simp
qed

lemma js_incr_small: "c < 2 ^ 53 \<Longrightarrow> js_incr c = c + 1"
  by (simp add: js_incr_def)

lemma js_incr_stays: "js_incr (2 ^ 53) = 2 ^ 53"
  by (simp add: js_incr_def)

lemma js_incr_new_api: "js_incr 0 = 1" "js_incr 1 = 2" "js_incr (Suc 0) = 2"
  by (simp_all add: js_incr_def)

lemma callMulti_shape:
  assumes "callMulti me requests events = (me', sent, timers, r)"
  shows "callId me' = js_incr (callId me)"
    and "sid me' = sid me" and "sidParamName me' = sidParamName me"
    and "sent = replicate (length timers + 1) (hd sent)"
    and "rq_id (hd sent) = js_incr (callId me)"
    and "rq_body (hd sent) = requests"
    and "timers = map (\<lambda>i. 10000 * 2 ^ i) [0..<length timers]"
    and "length timers \<le> 14"
proof -
  define rq where "rq = \<lparr>rq_host = host, rq_id = js_incr (callId me),
      rq_sid = (if truthy (sid me)
                then Some (if truthy (sidParamName me) then the (sidParamName me) else ''sid'',
                           the (sid me))
                else None),
      rq_body = requests\<rparr>"
  have run: "doRequest rq 10000 events = (sent, timers, r)"
    and me': "me' = me\<lparr>callId := js_incr (callId me)\<rparr>"
    using assms by (auto simp: callMulti_def Let_def rq_def)
  note shape = doRequest_shape [OF run]
  show "callId me' = js_incr (callId me)" "sid me' = sid me" "sidParamName me' = sidParamName me"
    using me' by simp_all
  have hd: "hd sent = rq" using shape by (cases sent) auto
  show "sent = replicate (length timers + 1) (hd sent)" using shape hd by simp
  show "rq_id (hd sent) = js_incr (callId me)" "rq_body (hd sent) = requests"
    using hd by (simp_all add: rq_def)
  show t: "timers = map (\<lambda>i. 10000 * 2 ^ i) [0..<length timers]" using shape by simp
  show "length timers \<le> 14"
  proof (cases timers rule: rev_cases)
    case Nil
    then show ?thesis by simp
  next
    case (snoc ds d)
    then have "d \<in> set timers" by simp
    then have "d < 120000000" using shape by blast
    moreover have "d = 10000 * 2 ^ length ds"
    proof -
      have "length ds < length timers" using snoc by simp
      then have "map (\<lambda>i. 10000 * 2 ^ i) [0..<length timers] ! length ds = 10000 * 2 ^ length ds"
        by simp
      then have "timers ! length ds = 10000 * 2 ^ length ds"
        using t by metis
      then show ?thesis using snoc by simp
    qed
    ultimately have "length ds < 14" using pow2_bound by simp
    then show ?thesis using snoc by simp
  qed
qed

text \<open>
  Claim C6, as amended. In \<^verbatim>\<open>callMulti\<close>, a transport failure with the code \<^verbatim>\<open>busy\<close>
  or \<^verbatim>\<open>no_response\<close> is answered by sending the same request again after the current
  delay, and doubling the delay, whenever the current delay is below 120 000 000 ms;
  the delay starts at 10 000 ms, so the delays of one call are 10 000, 20 000, ... ms
  and there are at most 14 of them. A transport failure with another code rejects the
  call with that code and message. A response is never retried: a number rejects the
  call with its error name and message, an array resolves it, negative entries included,
  and no answer of the server sets a timer.
\<close>

theorem callMulti_retry_policy:
  "((code = ''busy'' \<or> code = ''no_response'') \<longrightarrow> t < 120000000 \<longrightarrow>
      doRequest rq t (OnError code msg # es) =
        (case doRequest rq (2 * t) es of (sent, timers, r) \<Rightarrow> (rq # sent, t # timers, r))) \<and>
   (code \<noteq> ''busy'' \<longrightarrow> code \<noteq> ''no_response'' \<longrightarrow>
      doRequest rq t (OnError code msg # es) = ([rq], [], Rejected code (Some msg))) \<and>
   doRequest rq t (OnLoad (Some (JNum x)) # es) =
     ([rq], [], Rejected (getErrorName x) (Some (getErrorMessage (getErrorName x)))) \<and>
   doRequest rq t (OnLoad (Some (JArr rs)) # es) = ([rq], [], Resolved rs) \<and>
   fst (snd (doRequest rq t (OnLoad v # es))) = [] \<and>
   (callMulti me requests events = (me', sent, timers, r) \<longrightarrow>
      timers = map (\<lambda>i. 10000 * 2 ^ i) [0..<length timers] \<and> length timers \<le> 14 \<and>
      sent = replicate (length timers + 1) (hd sent) \<and> rq_body (hd sent) = requests)"
  using doRequest_retry [of code t rq msg es] doRequest_other_error [of code rq t msg es]
    callMulti_shape [of me requests events me' sent timers r]
  by (cases v) (simp_all add: onload_def Let_def)

lemma replicate_15: "replicate 15 x = [x, x, x, x, x, x, x, x, x, x, x, x, x, x, x]"
  by (simp add: eval_nat_numeral)

lemma busy15_run:
  "doRequest rq 10000 (busy15 @ es) =
     (replicate 15 rq,
      [10000, 20000, 40000, 80000, 160000, 320000, 640000, 1280000, 2560000, 5120000,
       10240000, 20480000, 40960000, 81920000],
      Pending)"
  by (simp add: busy15_def replicate_15)


theorem callMulti_retry_policy_witness:
  "doRequest \<lparr>rq_host = host, rq_id = 1, rq_sid = None, rq_body = []\<rparr> 10000
     [OnError ''busy'' ''try later'', OnLoad (Some (JArr [JNum (-9)]))]
     = ([\<lparr>rq_host = host, rq_id = 1, rq_sid = None, rq_body = []\<rparr>,
         \<lparr>rq_host = host, rq_id = 1, rq_sid = None, rq_body = []\<rparr>],
        [10000], Resolved [JNum (-9)]) \<and>
   doRequest \<lparr>rq_host = host, rq_id = 1, rq_sid = None, rq_body = []\<rparr> 10000
     [OnError ''refused'' ''connection refused'', OnLoad (Some (JArr []))]
     = ([\<lparr>rq_host = host, rq_id = 1, rq_sid = None, rq_body = []\<rparr>], [],
        Rejected ''refused'' (Some ''connection refused'')) \<and>
   length (fst (snd (snd (callMulti new_api [] busy15)))) \<le> 14"
proof -
  obtain me' sent timers r where run: "callMulti new_api [] busy15 = (me', sent, timers, r)"
    by (cases "callMulti new_api [] busy15") auto
  show ?thesis
    using callMulti_retry_policy [of "''busy''" 10000
        "\<lparr>rq_host = host, rq_id = 1, rq_sid = None, rq_body = []\<rparr>" "''try later''"
        "[OnLoad (Some (JArr [JNum (-9)]))]" "-9" "[JNum (-9)]" None new_api "[]" busy15
        me' sent timers r]
      callMulti_retry_policy [of "''refused''" 10000
        "\<lparr>rq_host = host, rq_id = 1, rq_sid = None, rq_body = []\<rparr>" "''connection refused''"
        "[OnLoad (Some (JArr []))]" "-9" "[]" None new_api "[]" busy15 me' sent timers r]
      run
    by simp
qed

text \<open>
  Against claim C6 as stated: after fifteen \<^verbatim>\<open>busy\<close> failures in a row the call has
  sent fifteen requests and set fourteen timers; the fifteenth failure sets none, the
  request is not sent again, and the deferred stays unsettled although the next POST
  would have been answered.
\<close>

theorem callMulti_retry_counterexample:
  "callMulti new_api [] (busy15 @ [OnLoad (Some (JArr []))]) =
     (new_api\<lparr>callId := 1\<rparr>,
      replicate 15 \<lparr>rq_host = host, rq_id = 1, rq_sid = None, rq_body = []\<rparr>,
      [10000, 20000, 40000, 80000, 160000, 320000, 640000, 1280000, 2560000, 5120000,
       10240000, 20480000, 40960000, 81920000],
      Pending)"
  by (simp add: callMulti_def Let_def new_api_def busy15_run js_incr_new_api)

section \<open>The call id\<close>

lemma js_incr_mono: "c \<le> js_incr c"
  by (simp add: js_incr_def)

lemma session_calls_length: "length (session_calls me batches) = length batches"
  by (induction batches arbitrary: me) (auto split: prod.splits)

lemma callMulti_same_id:
  assumes "callMulti me requests events = (me', sent, timers, r)"
  shows "sent \<noteq> []" and "\<forall>rq\<in>set sent. rq_id rq = callId me'"
proof -
  note shape = callMulti_shape [OF assms]
  show "sent \<noteq> []" using shape(4) by (cases sent) auto
  have "set sent \<subseteq> {hd sent}"
    using shape(4) by (metis set_replicate_conv_if subset_refl empty_subsetI)
  then show "\<forall>rq\<in>set sent. rq_id rq = callId me'"
    using shape(1,5) by auto
qed

lemma session_calls_ids:
  "i < length batches \<Longrightarrow> callId me + i < 2 ^ 53 \<Longrightarrow>
     session_calls me batches ! i \<noteq> [] \<and>
     (\<forall>rq\<in>set (session_calls me batches ! i). rq_id rq = callId me + i + 1)"
proof (induction batches arbitrary: me i)
  case Nil
  then show ?case by simp
next
  case (Cons batch batches)
  obtain requests events where batch: "batch = (requests, events)"
    by (cases batch) auto
  obtain me' sent timers r where run: "callMulti me requests events = (me', sent, timers, r)"
    by (cases "callMulti me requests events") auto
  have small: "callId me < 2 ^ 53" using Cons.prems(2) by simp
  have next_id: "callId me' = callId me + 1"
    using callMulti_shape(1) [OF run] js_incr_small [OF small] by simp
  note same = callMulti_same_id [OF run]
  show ?case
  proof (cases i)
    case 0
    then show ?thesis using batch run same next_id by simp
  next
    case (Suc k)
    then have "k < length batches" and "callId me' + k < 2 ^ 53"
      using Cons.prems next_id by simp_all
    then show ?thesis
      using Cons.IH [of k me'] batch run Suc next_id by simp
  qed
qed

text \<open>
  Claim C7. Every request that one \<^verbatim>\<open>callMulti\<close> sends, the first and each retry,
  carries the call id that the API object has after the call; the call never lowers the
  id, and it adds exactly one to an id below \<open>2 ^ 53\<close>; setting the session id leaves the
  counter alone. Over the batches of a session, in order, the requests of a later batch
  carry a greater id than those of an earlier batch, as long as the counter stays within
  \<open>2 ^ 53\<close>, where the number of the runtime still counts exactly.
\<close>

theorem callId_strictly_increasing:
  "(callMulti me requests events = (me', sent, timers, r) \<longrightarrow>
      sent \<noteq> [] \<and> (\<forall>rq\<in>set sent. rq_id rq = callId me') \<and> callId me \<le> callId me' \<and>
      (callId me < 2 ^ 53 \<longrightarrow> callId me' = callId me + 1)) \<and>
   callId (setSessionId me s paramName) = callId me \<and>
   (callId me + length batches \<le> 2 ^ 53 \<longrightarrow> i < j \<longrightarrow> j < length batches \<longrightarrow>
      (\<forall>a\<in>set (session_calls me batches ! i). \<forall>b\<in>set (session_calls me batches ! j).
         rq_id a < rq_id b))"
proof -
  have one: "sent \<noteq> [] \<and> (\<forall>rq\<in>set sent. rq_id rq = callId me') \<and> callId me \<le> callId me' \<and>
      (callId me < 2 ^ 53 \<longrightarrow> callId me' = callId me + 1)"
    if run: "callMulti me requests events = (me', sent, timers, r)"
    using callMulti_same_id [OF run] callMulti_shape(1) [OF run] js_incr_mono [of "callId me"]
      js_incr_small [of "callId me"]
    by simp
  have many: "\<forall>a\<in>set (session_calls me batches ! i). \<forall>b\<in>set (session_calls me batches ! j).
      rq_id a < rq_id b"
    if "callId me + length batches \<le> 2 ^ 53" and "i < j" and "j < length batches"
  proof -
    have "i < length batches" "callId me + i < 2 ^ 53" "callId me + j < 2 ^ 53"
      using that by simp_all
    then show ?thesis
      using that session_calls_ids [of i batches me] session_calls_ids [of j batches me]
      by auto
  qed
  show ?thesis
    using one many by (simp add: setSessionId_def)
qed

theorem callId_strictly_increasing_witness:
  "callId new_api < 2 ^ 53 \<and>
   map (map rq_id)
     (session_calls new_api
        [([JNull], [OnError ''busy'' ''try later'', OnLoad (Some (JArr [JNull]))]),
         ([JNull], [OnLoad (Some (JArr [JNull]))])]) = [[1, 1], [2]] \<and>
   callId (fst (callMulti new_api [JNull]
     [OnError ''busy'' ''try later'', OnLoad (Some (JArr [JNull]))])) = 1"
proof -
  let ?b1 = "([JNull], [OnError ''busy'' ''try later'', OnLoad (Some (JArr [JNull]))])"
  let ?b2 = "([JNull], [OnLoad (Some (JArr [JNull]))])"
  let ?rq = "\<lparr>rq_host = host, rq_id = 1, rq_sid = None, rq_body = [JNull]\<rparr>"
  have run: "callMulti new_api (fst ?b1) (snd ?b1)
      = (new_api\<lparr>callId := 1\<rparr>, [?rq, ?rq], [10000], Resolved [JNull])"
    by (simp add: callMulti_def Let_def new_api_def onload_def js_incr_new_api)
  have calls: "session_calls new_api [?b1, ?b2]
      = [[?rq, ?rq], [\<lparr>rq_host = host, rq_id = 2, rq_sid = None, rq_body = [JNull]\<rparr>]]"
    by (simp add: callMulti_def Let_def new_api_def onload_def js_incr_new_api)
  show ?thesis
    using callId_strictly_increasing [of new_api "fst ?b1" "snd ?b1" "new_api\<lparr>callId := 1\<rparr>"
        "[?rq, ?rq]" "[10000]" "Resolved [JNull]" None None "[?b1, ?b2]" 0 1]
      run calls
    by (simp add: new_api_def)
qed

section \<open>Properties of CallBatch.send\<close>

lemma find_code_unknown:
  "num \<notin> of_int ` snd ` set table \<Longrightarrow> find_code table num = ''EUNKNOWN''"
  by (induction table num rule: find_code.induct) auto

lemma getErrorName_unknown:
  "num \<notin> of_int ` snd ` set errorCodes \<Longrightarrow> getErrorName num = ''EUNKNOWN''"
  by (simp add: getErrorName_def find_code_unknown)

lemma getErrorMessage_unknown: "getErrorMessage ''EUNKNOWN'' = ''Unknown error''"
  by (simp add: getErrorMessage_def errorMessages_def)

lemma error_rows:
  "list_all (\<lambda>(name, c). c < 0 \<and> getErrorName (of_int c) = name \<and>
      map_of errorMessages name = Some (getErrorMessage name)) errorCodes"
  by code_simp

lemma error_table:
  "(name, c) \<in> set errorCodes \<Longrightarrow>
     c < 0 \<and> getErrorName (of_int c) = name \<and>
     map_of errorMessages name = Some (getErrorMessage name)"
  using error_rows unfolding list_all_iff by blast

lemma deliver_negative:
  "x < 0 \<Longrightarrow>
     deliver (JNum x) = Rejected (getErrorName x) (Some (getErrorMessage (getErrorName x)))"
  by (simp add: deliver_def Let_def)

lemma deliver_other:
  "(\<And>x. v = JNum x \<Longrightarrow> 0 \<le> x) \<Longrightarrow> deliver v = Resolved v"
  by (cases v) (auto simp: deliver_def)

lemma each_response_calls:
  "each_response rs idx calls = (calls', err) \<Longrightarrow>
     length calls' = length calls \<and>
     (\<forall>i<length calls.
        calls' ! i = (if idx \<le> i \<and> i < idx + length rs then deliver (rs ! (i - idx))
                      else calls ! i))"
proof (induction rs idx calls arbitrary: calls' err rule: each_response.induct)
  case (1 idx calls)
  then show ?case by auto
next
  case (2 response rest idx calls)
  show ?case
  proof (cases "idx < length calls")
    case False
    then show ?thesis using "2.prems" by auto
  next
    case True
    then have rec: "each_response rest (Suc idx) (calls[idx := deliver response]) = (calls', err)"
      using "2.prems" by simp
    note ih = "2.IH" [OF True rec]
    show ?thesis
    proof (intro conjI allI impI)
      show "length calls' = length calls" using ih by simp
    next
      fix i assume i: "i < length calls"
      then have "calls' ! i =
          (if Suc idx \<le> i \<and> i < Suc idx + length rest then deliver (rest ! (i - Suc idx))
           else calls[idx := deliver response] ! i)"
        using ih by simp
      then show "calls' ! i =
          (if idx \<le> i \<and> i < idx + length (response # rest)
           then deliver ((response # rest) ! (i - idx)) else calls ! i)"
        using i by (cases "i = idx") (auto simp: nth_Cons' Suc_diff_Suc)
    qed
  qed
qed

lemma send_resolved:
  assumes "callMulti me requests events = (me', sent, timers, Resolved responses)"
    and "i < length requests"
  shows "send_calls me requests events ! i =
           (if i < length responses then deliver (responses ! i) else Pending)"
proof -
  obtain calls' err where each:
    "each_response responses 0 (replicate (length requests) Pending) = (calls', err)"
    by (cases "each_response responses 0 (replicate (length requests) Pending)") auto
  have "send_calls me requests events = calls'"
    using assms each by (auto simp: send_calls_def send_def Let_def)
  then show ?thesis
    using each_response_calls [OF each] assms(2) by simp
qed

lemma send_rejected:
  assumes "callMulti me requests events = (me', sent, timers, Rejected code msg)"
  shows "send_calls me requests events = replicate (length requests) (Rejected code msg)"
  using assms by (simp add: send_calls_def send_def Let_def map_replicate_const)

lemma send_transport_error:
  assumes "code \<noteq> ''busy''" and "code \<noteq> ''no_response''"
  shows "send_calls me requests (OnError code msg # es)
           = replicate (length requests) (Rejected code (Some msg))"
proof -
  have "\<exists>me' sent timers. callMulti me requests (OnError code msg # es)
          = (me', sent, timers, Rejected code (Some msg))"
    using assms by (simp add: callMulti_def Let_def)
  then show ?thesis using send_rejected by blast
qed

lemma send_global_number:
  "send_calls me requests (OnLoad (Some (JNum x)) # es)
     = replicate (length requests)
         (Rejected (getErrorName x) (Some (getErrorMessage (getErrorName x))))"
proof -
  have "\<exists>me' sent timers. callMulti me requests (OnLoad (Some (JNum x)) # es)
          = (me', sent, timers,
             Rejected (getErrorName x) (Some (getErrorMessage (getErrorName x))))"
    by (simp add: callMulti_def Let_def onload_def)
  then show ?thesis using send_rejected by blast
qed

text \<open>
  Claim C5, as amended. For a flushed batch of \<open>n\<close> requests: when \<^verbatim>\<open>callMulti\<close>
  resolves with an array, the call at position \<open>i\<close> gets the result at position \<open>i\<close>;
  a negative number rejects it with the error name of the number and the message of
  that name (for the 22 codes of the table, the name and the message of the table; for
  any other number, \<^verbatim>\<open>EUNKNOWN\<close> and \<^verbatim>\<open>Unknown error\<close>), and any value that is not a
  negative number resolves it. When \<^verbatim>\<open>callMulti\<close> rejects, all \<open>n\<close> calls are rejected
  with its code and message: so for a transport failure whose code is neither \<^verbatim>\<open>busy\<close>
  nor \<^verbatim>\<open>no_response\<close>, and for a response that is one number.
\<close>

theorem batch_delivery:
  "(callMulti me requests events = (me', sent, timers, Resolved responses) \<longrightarrow>
      i < length requests \<longrightarrow> i < length responses \<longrightarrow>
      send_calls me requests events ! i = deliver (responses ! i)) \<and>
   (x < 0 \<longrightarrow>
      deliver (JNum x) = Rejected (getErrorName x) (Some (getErrorMessage (getErrorName x)))) \<and>
   ((name, c) \<in> set errorCodes \<longrightarrow>
      c < 0 \<and> getErrorName (of_int c) = name \<and>
      map_of errorMessages name = Some (getErrorMessage name)) \<and>
   (x \<notin> of_int ` snd ` set errorCodes \<longrightarrow>
      getErrorName x = ''EUNKNOWN'' \<and> getErrorMessage (getErrorName x) = ''Unknown error'') \<and>
   ((\<forall>y. v = JNum y \<longrightarrow> 0 \<le> y) \<longrightarrow> deliver v = Resolved v) \<and>
   (callMulti me requests events = (me', sent, timers, Rejected code msg) \<longrightarrow>
      send_calls me requests events = replicate (length requests) (Rejected code msg)) \<and>
   (code \<noteq> ''busy'' \<longrightarrow> code \<noteq> ''no_response'' \<longrightarrow>
      send_calls me requests (OnError code reason # es)
        = replicate (length requests) (Rejected code (Some reason))) \<and>
   send_calls me requests (OnLoad (Some (JNum x)) # es)
     = replicate (length requests)
         (Rejected (getErrorName x) (Some (getErrorMessage (getErrorName x))))"
  using send_resolved [of me requests events me' sent timers responses i]
    deliver_negative [of x] error_table [of name c] getErrorName_unknown [of x]
    getErrorMessage_unknown deliver_other [of v]
    send_rejected [of me requests events me' sent timers code msg]
    send_transport_error [of code me requests reason es]
    send_global_number [of me requests x es]
  by simp

theorem batch_delivery_witness:
  "send_calls new_api [JStr ''r1'', JStr ''r2'', JStr ''r3'']
     [OnLoad (Some (JArr [JStr ''ok1'', JNum (-9), JStr ''ok3'']))] ! 1
     = Rejected ''ENOENT'' (Some ''Not found'') \<and>
   send_calls new_api [JStr ''r1'', JStr ''r2'', JStr ''r3'']
     [OnLoad (Some (JArr [JStr ''ok1'', JNum (-9), JStr ''ok3'']))] ! 2
     = Resolved (JStr ''ok3'') \<and>
   deliver (JNum (-100)) = Rejected ''EUNKNOWN'' (Some ''Unknown error'') \<and>
   send_calls new_api [JStr ''r1'', JStr ''r2'', JStr ''r3'']
     [OnError ''refused'' ''connection refused'']
     = replicate 3 (Rejected ''refused'' (Some ''connection refused'')) \<and>
   send_calls new_api [JStr ''r1'', JStr ''r2'', JStr ''r3''] [OnLoad (Some (JNum (-9)))]
     = replicate 3 (Rejected ''ENOENT'' (Some ''Not found''))"
proof -
  let ?reqs = "[JStr ''r1'', JStr ''r2'', JStr ''r3'']"
  let ?resp = "[JStr ''ok1'', JNum (-9), JStr ''ok3'']"
  let ?rq = "\<lparr>rq_host = host, rq_id = 1, rq_sid = None, rq_body = ?reqs\<rparr>"
  have run: "callMulti new_api ?reqs [OnLoad (Some (JArr ?resp))]
      = (new_api\<lparr>callId := 1\<rparr>, [?rq], [], Resolved ?resp)"
    by (simp add: callMulti_def Let_def new_api_def onload_def js_incr_new_api)
  have row: "(''ENOENT'', -9) \<in> set errorCodes"
    by (simp add: errorCodes_def)
  have msg: "map_of errorMessages ''ENOENT'' = Some ''Not found''"
    by (simp add: errorMessages_def)
  have unknown: "(-100 :: rat) \<notin> of_int ` snd ` set errorCodes"
    by (simp add: errorCodes_def)
  have str: "\<forall>y. JStr ''ok3'' = JNum y \<longrightarrow> 0 \<le> y"
    by simp
  note first = batch_delivery [of new_api ?reqs "[OnLoad (Some (JArr ?resp))]"
      "new_api\<lparr>callId := 1\<rparr>" "[?rq]" "[]" ?resp 1 "-9" "''ENOENT''" "-9" "JStr ''ok3''"
      "''refused''" None "''connection refused''" "[]"]
  note second = batch_delivery [of new_api ?reqs "[OnLoad (Some (JArr ?resp))]"
      "new_api\<lparr>callId := 1\<rparr>" "[?rq]" "[]" ?resp 2 "-100" "''ENOENT''" "-9" "JStr ''ok3''"
      "''refused''" None "''connection refused''" "[]"]
  show ?thesis
    using first second run row msg unknown str
    by (simp add: getErrorMessage_unknown numeral_3_eq_3)
qed

text \<open>
  Against claim C5 as stated: a transport failure with the code \<^verbatim>\<open>busy\<close> rejects no
  call of the batch, the calls stay unsettled and are resolved when the retry is
  answered; and the response \<^verbatim>\<open>-1.5\<close>, which is not a negative integer, does not
  resolve its call.
\<close>

theorem batch_delivery_counterexample:
  "send_calls new_api [JStr ''r1'', JStr ''r2''] [OnError ''busy'' ''try later'']
     = [Pending, Pending] \<and>
   send_calls new_api [JStr ''r1'', JStr ''r2'']
     [OnError ''busy'' ''try later'', OnLoad (Some (JArr [JStr ''ok1'', JStr ''ok2'']))]
     = [Resolved (JStr ''ok1''), Resolved (JStr ''ok2'')] \<and>
   send_calls new_api [JStr ''r1''] [OnLoad (Some (JArr [JNum (- 3 / 2)]))]
     = [Rejected ''EUNKNOWN'' (Some ''Unknown error'')]"
  by (simp add: send_calls_def send_def callMulti_def Let_def new_api_def onload_def
      deliver_def getErrorName_def errorCodes_def getErrorMessage_def errorMessages_def
      numeral_2_eq_2 js_incr_new_api)

section \<open>Properties of the login\<close>

lemma tsOk_iff:
  "tsOk P ts mk =
     (32 \<le> length (ub64dec P ts) \<and>
      drop (length (ub64dec P ts) - 16) (ub64dec P ts) = aes_enc P mk (take 16 (ub64dec P ts)))"
  by (auto simp: tsOk_def Let_def slicebuf_def)

lemma defer_not_in_scope:
  "''defer'' \<notin> set loginEphemeral_scope" "''defer'' \<notin> set login_scope"
  by (simp_all add: loginEphemeral_scope_def login_scope_def globals_def)

text \<open>
  Claim C4. \<^verbatim>\<open>tsOk\<close> is true exactly when the decoded TSID has at least 32 bytes and
  its last 16 bytes are the encryption of its first 16 under the master key. When the
  check fails, the continuation of \<^verbatim>\<open>loginEphemeral\<close>, and that of \<^verbatim>\<open>login\<close> on an
  answer with a \<^verbatim>\<open>tsid\<close> and no \<^verbatim>\<open>csid\<close>, does not reject with \<^verbatim>\<open>invalid_tsid\<close>: the
  statement that would reject names a \<^verbatim>\<open>defer\<close> that is not in scope, and throws a
  ReferenceError.
\<close>

theorem invalid_tsid_throws:
  "tsOk P ts mk =
     (32 \<le> length (ub64dec P ts) \<and>
      drop (length (ub64dec P ts) - 16) (ub64dec P ts) = aes_enc P mk (take 16 (ub64dec P ts))) \<and>
   (\<not> tsOk P tsid (aes_dec P (aes_key_from_password P pw) (ub64dec P k)) \<longrightarrow>
      loginEphemeral_done P me uh pw k tsid = (me, Threw (ReferenceError ''defer'')) \<and>
      (\<not> truthy csid \<longrightarrow> tsid \<noteq> [] \<longrightarrow>
         login_done P me email pw k csid (Some tsid) privk u
           = (me, Threw (ReferenceError ''defer''))))"
  using tsOk_iff [of P ts mk] defer_not_in_scope
  by (simp add: loginEphemeral_done_def login_done_def Let_def defer_reject_def)

theorem invalid_tsid_throws_witness:
  "\<not> tsOk toyP ''short'' (aes_dec toyP (aes_key_from_password toyP ''pw'') (ub64dec toyP ''k'')) \<and>
   loginEphemeral_done toyP new_api ''AAAAAAAAAAA'' ''pw'' ''k'' ''short''
     = (new_api, Threw (ReferenceError ''defer'')) \<and>
   login_done toyP new_api ''alice@x'' ''pw'' ''k'' None (Some ''short'') None None
     = (new_api, Threw (ReferenceError ''defer''))"
proof -
  have h: "\<not> tsOk toyP ''short''
      (aes_dec toyP (aes_key_from_password toyP ''pw'') (ub64dec toyP ''k''))"
    by (simp add: tsOk_def toyP_fields)
  show ?thesis
    using invalid_tsid_throws [of toyP "''short''"
        "aes_dec toyP (aes_key_from_password toyP ''pw'') (ub64dec toyP ''k'')" "''short''"
        "''pw''" "''k''" new_api "''AAAAAAAAAAA''" None "''alice@x''" None None] h
    by simp
qed

section \<open>Properties of opening a session\<close>

lemma Session_load_loaded:
  assumes "loadSessionFile P (s_creds s) None d = Some payload" and "payload \<noteq> []"
    and "dec_jx_session P payload = Some loaded"
    and "loadSessionFile P (s_creds s) (Some ''fs'') d = None \<or>
         (\<exists>content saved. loadSessionFile P (s_creds s) (Some ''fs'') d = Some content \<and>
            dec_jx_fs P content = Some saved)"
  shows "\<exists>s1. Session_load P s d = Inr (True, s1) \<and> s_data s1 = loaded \<and>
           s_api s1 = s_api s \<and> s_creds s1 = s_creds s"
  using assms
  by (auto simp: Session_load_def Let_def setData_def split: option.splits)

lemma Session_open_fresh:
  assumes "Session_load P s d = Inr (True, s1)" and "isFresh s1 now" and "\<not> forceCheck"
  shows "Session_open P now s forceCheck d scripts = (s1, d, [], Resolved ())"
  using assms by (simp add: Session_open_def)

lemma isFresh_iff:
  "isFresh s now = (\<exists>saved. d_saved (s_data s) = Some saved \<and> saved \<noteq> 0 \<and> now - 3600000 < saved)"
  by (auto simp: isFresh_def timeout_def split: option.splits)

text \<open>
  Claim C8. When the session file exists, passes the digest check and decodes to a
  session whose \<^verbatim>\<open>saved\<close> time is later than one hour before now (and is not the number
  zero, which \<^verbatim>\<open>isFresh\<close> reads as absent), the saved filesystem, if there is one, decodes
  too, and \<^verbatim>\<open>forceCheck\<close> is not set, then \<^verbatim>\<open>open\<close> resolves with the loaded session and
  sends no HTTP request: the list of requests is empty, the disk and the call id are as
  before.
\<close>

theorem open_fresh_no_http:
  assumes "loadSessionFile P (s_creds s) None d = Some payload" and "payload \<noteq> []"
    and "dec_jx_session P payload = Some loaded"
    and "loadSessionFile P (s_creds s) (Some ''fs'') d = None \<or>
         (\<exists>content saved. loadSessionFile P (s_creds s) (Some ''fs'') d = Some content \<and>
            dec_jx_fs P content = Some saved)"
    and "d_saved loaded = Some saved" and "saved \<noteq> 0" and "now - 60 * 60 * 1000 < saved"
    and "\<not> forceCheck"
  shows "\<exists>s1. Session_open P now s forceCheck d scripts = (s1, d, [], Resolved ()) \<and>
           s_data s1 = loaded \<and> s_api s1 = s_api s"
proof -
  obtain s1 where s1: "Session_load P s d = Inr (True, s1)" "s_data s1 = loaded"
    "s_api s1 = s_api s"
    using Session_load_loaded [OF assms(1-4)] by blast
  have "isFresh s1 now"
    using s1(2) assms(5-7) by (simp add: isFresh_iff)
  then show ?thesis
    using Session_open_fresh [OF s1(1) _ assms(8)] s1 by simp
qed

lemma toy_saved_disk:
  "snd (snd (Session_save toyP 5 toy_session Map.empty)) =
     Map.empty
       (getSessionFilePath toyP (s_creds toy_session) (Some ''fs'')
          \<mapsto> stored_blob toyP (s_creds toy_session) (Some ''fs'') ''fs'',
        getSessionFilePath toyP (s_creds toy_session) None
          \<mapsto> stored_blob toyP (s_creds toy_session) None ''sssss'')"
  by (simp add: Session_save_def Let_def saveSessionFile_def stored_blob_def file_write_def
      getData_def toyP_fields toy_session_def Duktape_Buffer_def toy_session_data_def
      eval_nat_numeral)

lemma toy_paths_differ:
  "getSessionFilePath toyP (s_creds toy_session) (Some ''fs'')
     \<noteq> getSessionFilePath toyP (s_creds toy_session) None"
  by (simp add: getSessionFilePath_def session_digest_def Let_def toy_session_def toy_eval
      eval_nat_numeral)

theorem open_fresh_no_http_witness:
  "Session_open toyP 7 toy_session False (snd (snd (Session_save toyP 5 toy_session Map.empty)))
     [[OnLoad (Some (JArr [JNum (-15)]))]]
   = (toy_session\<lparr>s_data := toy_session_data ''sssss'', s_fs := toy_fs\<rparr>,
      snd (snd (Session_save toyP 5 toy_session Map.empty)), [], Resolved ())"
proof -
  let ?d = "snd (snd (Session_save toyP 5 toy_session Map.empty))"
  have a: "loadSessionFile toyP (s_creds toy_session) None ?d = Some ''sssss''"
    unfolding toy_saved_disk
    using loadSessionFile_stored [OF toy_digest_contract toy_ctr_contract]
    by simp
  have b: "loadSessionFile toyP (s_creds toy_session) (Some ''fs'') ?d = Some ''fs''"
    unfolding toy_saved_disk
    using loadSessionFile_stored [OF toy_digest_contract toy_ctr_contract,
        of "s_creds toy_session" "Some ''fs''" _ "''fs''"] toy_paths_differ
    by (simp add: fun_upd_twist)
  have c: "dec_jx_session toyP ''sssss'' = Some (toy_session_data ''sssss'')"
    "dec_jx_fs toyP ''fs'' = Some toy_fs"
    by (simp_all add: toyP_fields)
  have e: "d_saved (toy_session_data ''sssss'') = Some 5"
    by (simp add: toy_session_data_def)
  have load: "Session_load toyP toy_session ?d
      = Inr (True, toy_session\<lparr>s_data := toy_session_data ''sssss'', s_fs := toy_fs\<rparr>)"
    using a b c by (simp add: Session_load_def Let_def setData_def toy_fs_def toy_session_def)
  obtain s1 where s1: "Session_open toyP 7 toy_session False ?d [[OnLoad (Some (JArr [JNum (-15)]))]]
      = (s1, ?d, [], Resolved ())"
    using open_fresh_no_http [of toyP toy_session ?d "''sssss''" "toy_session_data ''sssss''" 5 7
        False "[[OnLoad (Some (JArr [JNum (-15)]))]]"] a b c e
    by auto
  moreover have "s1 = toy_session\<lparr>s_data := toy_session_data ''sssss'', s_fs := toy_fs\<rparr>"
    using s1 load by (simp add: Session_open_def isFresh_def e timeout_def)
  ultimately show ?thesis by simp
qed

section \<open>Properties of importNode\<close>

text \<open>
  The share keys of a new filesystem: a handle that was stored reads as its buffer, a
  handle that was never stored reads as \<^verbatim>\<open>undefined\<close>, and a handle that names a member
  the array inherits reads as that member, which is no key: \<^verbatim>\<open>importNode\<close> then throws
  where it decrypts the key of the node.
\<close>

lemma getShareKey_stored:
  assumes "setShareKey P fs handle key = Inr fs'"
    and "handle \<noteq> ''__proto__''" and "handle \<noteq> ''length''"
  shows "getShareKey fs' handle = KeyBuf key"
  using assms
  by (auto simp: setShareKey_def getShareKey_def Let_def split: option.splits)

lemma getShareKey_new:
  "handle \<noteq> ''length'' \<Longrightarrow> handle \<notin> set Array_inherited \<Longrightarrow>
     getShareKey toy_fs handle = NoKey"
  by (simp add: getShareKey_def toy_fs_def empty_array_def)

lemma load_keys_inherited:
  "d_uh sd \<noteq> Some ''toString'' \<Longrightarrow>
     load_keys P sd toy_fs [''toString:AAAAAAAAAAAAAAAAAAAAAA''] n = Inl (TypeError ''aes_dec'')"
  by (simp add: getShareKey_def toy_fs_def empty_array_def Array_inherited_def Let_def)

lemma import_share_key_throws:
  "truthy (f_sk entry) \<Longrightarrow> import_share_key P sd fs entry n = Inl (TypeError ''sk'')"
  by (simp add: import_share_key_def Let_def)

lemma importNode_with_sk:
  assumes "truthy (f_sk entry)"
  shows "(\<exists>e. importNode P sd fs entry = Inl e) \<or> importNode P sd fs entry = Inr (None, fs)"
  using assms
  by (auto simp: importNode_def Let_def import_share_key_throws
      split: option.splits sum.splits)

lemma importNode_with_sk_only:
  assumes "truthy (f_sk entry)" and "\<not> truthy (f_k entry)"
  shows "importNode P sd fs entry = Inl (TypeError ''sk'')"
  using assms by (simp add: importNode_def Let_def import_share_key_throws)

text \<open>
  Claim C9. For a node whose data carries \<^verbatim>\<open>sk\<close>, \<^verbatim>\<open>importNode\<close> installs no share
  key: it reads the length of the variable \<open>sk\<close>, which is still undefined (the decoded
  value is in \<open>esk\<close>), and throws a TypeError, unless an earlier step already threw or
  dropped the node. No share key is decrypted, by RSA or by AES.
\<close>

theorem importNode_share_key_throws:
  "truthy (f_sk entry) \<longrightarrow>
     ((\<exists>e. importNode P sd fs entry = Inl e) \<or> importNode P sd fs entry = Inr (None, fs)) \<and>
     (\<not> truthy (f_k entry) \<longrightarrow> importNode P sd fs entry = Inl (TypeError ''sk''))"
  using importNode_with_sk [of entry P sd fs] importNode_with_sk_only [of entry P sd fs]
  by blast

theorem importNode_share_key_throws_witness:
  "truthy (f_sk entry_sk) \<and> \<not> truthy (f_k entry_sk) \<and>
   importNode toyP toy_user toy_fs entry_sk = Inl (TypeError ''sk'')"
  using importNode_share_key_throws [of entry_sk toyP toy_user toy_fs]
  by (simp add: entry_sk_def)

lemma contains_slash: "contains_seq ''/'' name = (CHR ''/'' \<in> set name)"
  by (induction name) auto

lemma invalid_name_elsewhere:
  "os P \<noteq> ''windows'' \<Longrightarrow>
     invalid_name P name = (name = ''.'' \<or> name = ''..'' \<or> CHR ''/'' \<in> set name)"
  by (simp add: invalid_name_def contains_slash)

lemma invalid_name_windows:
  "os P = ''windows'' \<Longrightarrow>
     invalid_name P name = (name = ''.'' \<or> name = ''..'' \<or> contains_seq windows_pattern name)"
  by (simp add: invalid_name_def)

text \<open>
  Claim C10. On Windows the test of the name is a regular expression without brackets,
  the nine characters in a row: a node whose decrypted name is \<^verbatim>\<open>a/b\<close> is not dropped,
  it is imported under that name. (Elsewhere the names \<^verbatim>\<open>.\<close>, \<^verbatim>\<open>..\<close> and those that
  contain a slash are the invalid ones, as the claim says.)
\<close>

theorem importNode_windows_slash:
  "os windowsP = ''windows'' \<and>
   \<not> invalid_name windowsP ''a/b'' \<and>
   import_result (importNode windowsP toy_user toy_fs entry_slash) =
     Inr (Some \<lparr>n_type = 1, n_handle = ''h0000002'', n_parent_handle = Some ''*TOP*'',
                n_su_handle = None, n_user = None, n_size = None, n_mtime = None,
                n_key_full = None,
                n_key = Some (toy_xor ''0123456789abcdef'' ''BBBBBBBBBBBBBBBBBBBBBB''),
                n_attrs = Some (JObj [(''n'', JStr ''a/b'')]), n_name = Some ''a/b''\<rparr>)"
  by code_simp

section \<open>Properties of loading the filesystem\<close>

text \<open>
  What the continuation of \<^verbatim>\<open>load\<close> would do with the users of an answer: every user
  with \<^verbatim>\<open>c == 1\<close> becomes a contact node under \<^verbatim>\<open>*NETWORK\<close>, and no other handle is
  touched.
\<close>

lemma load_u_other:
  "h \<notin> u_u ` {u \<in> set us. u_c u = 1} \<Longrightarrow> nodes (load_u us fs) h = nodes fs h"
proof (induction us arbitrary: fs)
  case Nil
  then show ?case by simp
next
  case (Cons v vs)
  have rest: "h \<notin> u_u ` {u \<in> set vs. u_c u = 1}"
    using Cons.prems by auto
  show ?case
  proof (cases "u_c v = 1")
    case True
    then have "h \<noteq> u_u v" using Cons.prems by auto
    then show ?thesis using True Cons.IH [OF rest] by (simp add: set_node_def)
  next
    case False
    then show ?thesis using Cons.IH [OF rest] by simp
  qed
qed

lemma load_u_contact:
  "h \<in> u_u ` {u \<in> set us. u_c u = 1} \<Longrightarrow> h \<noteq> ''__proto__'' \<Longrightarrow>
     \<exists>n. nodes (load_u us fs) h = Some n \<and> n_type n = CONTACT \<and>
         n_handle n = h \<and> n_parent_handle n = Some ''*NETWORK''"
proof (induction us arbitrary: fs)
  case Nil
  then show ?case by simp
next
  case (Cons v vs)
  show ?case
  proof (cases "h \<in> u_u ` {u \<in> set vs. u_c u = 1}")
    case True
    then show ?thesis using Cons.IH Cons.prems(2) by simp
  next
    case False
    then have v: "u_u v = h" "u_c v = 1" using Cons.prems by auto
    then show ?thesis
      using load_u_other [OF False] Cons.prems(2) by (simp add: plain_node_def set_node_def)
  qed
qed

text \<open>
  And with the share keys of \<^verbatim>\<open>ok\<close>: a handle gets a key only from an entry that
  authenticates under the master key.
\<close>

lemma setShareKey_buffer:
  "setShareKey P fs handle k = Inr fs' \<Longrightarrow> share_keys fs' h = KeyBuf key \<Longrightarrow>
     share_keys fs h = KeyBuf key \<or> (handle = h \<and> k = key)"
  by (auto simp: setShareKey_def Let_def split: if_splits option.splits)

lemma load_ok_share_keys:
  "load_ok P sd oks fs = Inr fs' \<Longrightarrow> share_keys fs' h = KeyBuf key \<Longrightarrow>
     share_keys fs h = KeyBuf key \<or>
     (\<exists>ok\<in>set oks. ok_h ok = h \<and>
        aes_dec P (or_empty (d_mk sd)) (ub64dec P (ok_ha ok)) = h @ h \<and>
        key = aes_dec P (or_empty (d_mk sd)) (ub64dec P (ok_k ok)))"
proof (induction oks arbitrary: fs)
  case Nil
  then show ?case by simp
next
  case (Cons ok oks)
  let ?ha = "aes_dec P (or_empty (d_mk sd)) (ub64dec P (ok_ha ok))"
  let ?k = "aes_dec P (or_empty (d_mk sd)) (ub64dec P (ok_k ok))"
  show ?case
  proof (cases "?ha = ok_h ok @ ok_h ok")
    case False
    then have "load_ok P sd oks fs = Inr fs'"
      using Cons.prems(1) by (simp add: Let_def Duktape_Buffer_def joinbuf_def)
    then show ?thesis using Cons.IH [of fs] Cons.prems(2) by auto
  next
    case True
    then obtain fs1 where set1: "setShareKey P fs (ok_h ok) ?k = Inr fs1"
      and rest: "load_ok P sd oks fs1 = Inr fs'"
      using Cons.prems(1)
      by (auto simp: Let_def Duktape_Buffer_def joinbuf_def split: sum.splits)
    from Cons.IH [OF rest Cons.prems(2)] show ?thesis
    proof
      assume "share_keys fs1 h = KeyBuf key"
      then show ?thesis using setShareKey_buffer [OF set1] True by auto
    next
      assume "\<exists>ok\<in>set oks. ok_h ok = h \<and>
        aes_dec P (or_empty (d_mk sd)) (ub64dec P (ok_ha ok)) = h @ h \<and>
        key = aes_dec P (or_empty (d_mk sd)) (ub64dec P (ok_k ok))"
      then show ?thesis by auto
    qed
  qed
qed

text \<open>
  Claim C3. \<^verbatim>\<open>Filesystem.load\<close> calls the member \<^verbatim>\<open>callSingle\<close> of the API object;
  the object has the members \<^verbatim>\<open>call\<close> and \<^verbatim>\<open>callMulti\<close> and no member of that name, so the
  call throws a TypeError: no request is handed to the API engine, whatever that
  engine would do with it, and the continuation that ingests the answer never runs.
\<close>

theorem Filesystem_load_throws:
  "Filesystem_load P sd fs rpc = Inl (TypeError ''callSingle'') \<and>
   ''call'' \<in> set MegaAPI_members \<and> ''callMulti'' \<in> set MegaAPI_members"
  by (simp add: Filesystem_load_def MegaAPI_members_def)

end
